theory Spec2Isabelle
  imports Main
begin

section \<open>Text helpers of the Go standard library\<close>

text \<open>
  The package \<open>logger\<close> (file \<open>logger.go\<close>) is a thin layer over \<open>fmt\<close>, \<open>log\<close>,
  \<open>os\<close>, \<open>path/filepath\<close>, \<open>strings\<close> and \<open>time\<close>. The pieces of those packages that
  \<open>logger.go\<close> calls are written out here on Unix paths, from their documented behaviour;
  \<open>fmt.Sprintf\<close> alone is taken as a parameter of the operations that call it.
\<close>

definition digit :: "nat \<Rightarrow> char" where
  "digit n = ''0123456789'' ! (n mod 10)"

fun digits :: "nat \<Rightarrow> string" where
  "digits n = (if n < 10 then [digit n] else digits (n div 10) @ [digit n])"

declare digits.simps [simp del]

text \<open>Decimal text of an integer, as the verbs \<open>%d\<close> and \<open>%v\<close> print it.\<close>

definition itoa :: "int \<Rightarrow> string" where
  "itoa i = (if i < 0 then CHR ''-'' # digits (nat (- i)) else digits (nat i))"

text \<open>Zero padding to at least \<open>wid\<close> digits (\<open>log.itoa\<close>, and the numeric layouts of \<open>time.Format\<close>).\<close>

definition pad :: "nat \<Rightarrow> nat \<Rightarrow> string" where
  "pad wid n = replicate (wid - length (digits n)) CHR ''0'' @ digits n"

definition slash :: char where
  "slash = CHR ''/''"

definition newline :: char where
  "newline = CHR 0x0A"

text \<open>\<open>strings.Join\<close>.\<close>

fun join_with :: "string \<Rightarrow> string list \<Rightarrow> string" where
  "join_with sep [] = []"
| "join_with sep [x] = x"
| "join_with sep (x # y # ys) = x @ sep @ join_with sep (y # ys)"

text \<open>\<open>strings.TrimSuffix\<close>.\<close>

definition TrimSuffix :: "string \<Rightarrow> string \<Rightarrow> string" where
  "TrimSuffix s suf =
     (if length suf \<le> length s \<and> drop (length s - length suf) s = suf
      then take (length s - length suf) s else s)"

text \<open>The text after the last separator of a path (all of it when there is none).\<close>

definition after_last_slash :: "string \<Rightarrow> string" where
  "after_last_slash path = rev (takeWhile (\<lambda>c. c \<noteq> slash) (rev path))"

text \<open>\<open>filepath.Split\<close>: the directory part keeps its final separator.\<close>

definition Split :: "string \<Rightarrow> string \<times> string" where
  "Split path =
     (take (length path - length (after_last_slash path)) path, after_last_slash path)"

text \<open>\<open>filepath.Ext\<close>: from the last dot of the last element, empty when it has no dot.\<close>

definition Ext :: "string \<Rightarrow> string" where
  "Ext path =
     (let file = after_last_slash path in
      if CHR ''.'' \<in> set file
      then CHR ''.'' # rev (takeWhile (\<lambda>c. c \<noteq> CHR ''.'') (rev file))
      else [])"

text \<open>\<open>filepath.Base\<close>: trailing separators are dropped first.\<close>

definition Base :: "string \<Rightarrow> string" where
  "Base path =
     (if path = [] then ''.''
      else let p = rev (dropWhile (\<lambda>c. c = slash) (rev path));
               b = after_last_slash p
           in if b = [] then [slash] else b)"

text \<open>The elements of a path between its separators (\<open>strings.Split\<close> on the separator).\<close>

definition elements :: "string \<Rightarrow> string list" where
  "elements p = foldr (\<lambda>c acc. if c = slash then [] # acc else (c # hd acc) # tl acc) p [[]]"

text \<open>
  \<open>filepath.Clean\<close>, element by element: empty elements and \<open>.\<close> vanish, \<open>..\<close> removes the
  element before it, stays at the front of a relative path, and vanishes at the root.
\<close>

definition clean_step :: "bool \<Rightarrow> string list \<Rightarrow> string \<Rightarrow> string list" where
  "clean_step rooted st c =
     (if c = [] \<or> c = ''.'' then st
      else if c = ''..'' then
        (if st \<noteq> [] \<and> last st \<noteq> ''..'' then butlast st
         else if rooted then st else st @ [''..''])
      else st @ [c])"

definition Clean :: "string \<Rightarrow> string" where
  "Clean p =
     (if p = [] then ''.''
      else let rooted = (hd p = slash);
               out = (if rooted then [slash] else [])
                     @ join_with [slash] (foldl (clean_step rooted) [] (elements p))
           in if out = [] then ''.'' else out)"

text \<open>A path element that \<open>Clean\<close> keeps as it is: a name other than \<open>.\<close> and \<open>..\<close>.\<close>

definition plain_element :: "string \<Rightarrow> bool" where
  "plain_element c = (slash \<notin> set c \<and> c \<noteq> [] \<and> c \<noteq> ''.'' \<and> c \<noteq> ''..'')"

text \<open>\<open>filepath.Dir\<close>.\<close>

definition Dir :: "string \<Rightarrow> string" where
  "Dir path = Clean (fst (Split path))"

text \<open>\<open>filepath.Join\<close>: leading empty elements are skipped, the rest joined and cleaned.\<close>

definition Join :: "string list \<Rightarrow> string" where
  "Join elem =
     (case dropWhile (\<lambda>e. e = []) elem of
        [] \<Rightarrow> []
      | es \<Rightarrow> Clean (join_with [slash] es))"

subsection \<open>Operands of the print functions\<close>

datatype arg = StrArg string | IntArg int | BoolArg bool | NilArg

text \<open>An operand under the verb \<open>%v\<close>.\<close>

fun show_arg :: "arg \<Rightarrow> string" where
  "show_arg (StrArg s) = s"
| "show_arg (IntArg i) = itoa i"
| "show_arg (BoolArg b) = (if b then ''true'' else ''false'')"
| "show_arg NilArg = ''<nil>''"

fun is_string :: "arg \<Rightarrow> bool" where
  "is_string (StrArg s) = True"
| "is_string a = False"

text \<open>
  \<open>fmt.Sprint\<close>: the loop of \<open>doPrint\<close> writes a space before an operand (other than the
  first) when neither it nor the operand before it is a string.
\<close>

fun doPrint :: "bool \<Rightarrow> arg list \<Rightarrow> string" where
  "doPrint prevString [] = []"
| "doPrint prevString (a # as) =
     (if \<not> is_string a \<and> \<not> prevString then [CHR 0x20] else [])
     @ show_arg a @ doPrint (is_string a) as"

definition Sprint :: "arg list \<Rightarrow> string" where
  "Sprint v = (case v of [] \<Rightarrow> [] | a # as \<Rightarrow> show_arg a @ doPrint (is_string a) as)"

type_synonym formatter = "string \<Rightarrow> arg list \<Rightarrow> string"

subsection \<open>The clock\<close>

text \<open>A reading of \<open>time.Now()\<close> in local time, to the second.\<close>

record timestamp =
  t_year :: nat
  t_month :: nat
  t_day :: nat
  t_hour :: nat
  t_minute :: nat
  t_second :: nat

text \<open>The layout \<open>20060102-150405\<close> of \<open>time.Format\<close>.\<close>

definition rotation_stamp :: "timestamp \<Rightarrow> string" where
  "rotation_stamp t =
     pad 4 (t_year t) @ pad 2 (t_month t) @ pad 2 (t_day t) @ ''-''
     @ pad 2 (t_hour t) @ pad 2 (t_minute t) @ pad 2 (t_second t)"

subsection \<open>Package log: flags, writers and the line header\<close>

datatype logflag = Ldate | Ltime | Llongfile | Lshortfile | Lmsgprefix

text \<open>
  An \<open>io.Writer\<close> as \<open>logger.go\<close> builds them: the standard streams, an \<open>*os.File\<close> (by its
  address in the store of file objects) and \<open>io.MultiWriter\<close>.
\<close>

datatype writer = Stdout | Stderr | FileWriter nat | MultiWriter "writer list"

text \<open>A \<open>log.Logger\<close>.\<close>

record channel =
  l_prefix :: string
  l_flags :: "logflag set"
  l_out :: writer

text \<open>\<open>Lshortfile\<close> keeps what follows the last separator at an index through 0.\<close>

definition shortfile :: "string \<Rightarrow> string" where
  "shortfile file = (if slash \<in> set (tl file) then after_last_slash file else file)"

text \<open>\<open>log.formatHeader\<close>, for the flags through.\<close>

definition formatHeader :: "timestamp \<Rightarrow> string \<Rightarrow> logflag set \<Rightarrow> string \<Rightarrow> int \<Rightarrow> string" where
  "formatHeader t prefix flag file line =
     (if Lmsgprefix \<notin> flag then prefix else [])
     @ (if Ldate \<in> flag
        then pad 4 (t_year t) @ ''/'' @ pad 2 (t_month t) @ ''/'' @ pad 2 (t_day t) @ [CHR 0x20]
        else [])
     @ (if Ltime \<in> flag
        then pad 2 (t_hour t) @ '':'' @ pad 2 (t_minute t) @ '':'' @ pad 2 (t_second t) @ [CHR 0x20]
        else [])
     @ (if Lshortfile \<in> flag \<or> Llongfile \<in> flag
        then (if Lshortfile \<in> flag then shortfile file else file) @ '':'' @ itoa line @ [CHR '':'', CHR 0x20]
        else [])
     @ (if Lmsgprefix \<in> flag then prefix else [])"

section \<open>The file system and the process state\<close>

datatype errno = ENOENT | EACCES | EISDIR | ENOTDIR | EBADF

text \<open>
  Path names are looked up as they are written. A regular file is a directory entry that
  names an inode; the data of an inode is the list of the writes it received. The paths in
  \<open>fs_denied\<close> are those the system refuses to create, open or rename (permissions, a
  read-only mount, another device).
\<close>

record filesystem =
  fs_dirs :: "string set"
  fs_files :: "string \<rightharpoonup> nat"
  fs_data :: "nat \<rightharpoonup> string list"
  fs_denied :: "string set"
  fs_fresh :: nat

text \<open>The prefixes of a path that end before a separator: the directories it passes through.\<close>

definition through :: "string \<Rightarrow> string list" where
  "through p = map (\<lambda>i. take i p) (filter (\<lambda>i. p ! i = slash) [1..<length p])"

text \<open>A directory path with the directories it passes through, outermost first, the root left out.\<close>

definition ancestors :: "string \<Rightarrow> string list" where
  "ancestors p = through p @ [p]"

text \<open>
  \<open>os.IsNotExist\<close> of the error of \<open>os.Stat\<close>: nothing is at the path. A path that passes
  through a regular file fails with \<open>ENOTDIR\<close> instead, which is not that error.
\<close>

definition stat_not_exist :: "filesystem \<Rightarrow> string \<Rightarrow> bool" where
  "stat_not_exist fsys p =
     (p \<notin> fs_dirs fsys \<and> fs_files fsys p = None
      \<and> \<not> (\<exists>a \<in> set (through p). fs_files fsys a \<noteq> None))"

text \<open>
  The directories \<open>os.MkdirAll\<close> makes, parents first: one that exists is passed over, and
  the first that cannot be made ends the call with those made before it left in place.
\<close>

fun mkdirs :: "string list \<Rightarrow> filesystem \<Rightarrow> errno option \<times> filesystem" where
  "mkdirs [] fsys = (None, fsys)"
| "mkdirs (a # as) fsys =
     (if a \<in> fs_dirs fsys then mkdirs as fsys
      else if fs_files fsys a \<noteq> None then (Some ENOTDIR, fsys)
      else if a \<in> fs_denied fsys then (Some EACCES, fsys)
      else mkdirs as (fsys\<lparr>fs_dirs := insert a (fs_dirs fsys)\<rparr>))"

text \<open>\<open>os.MkdirAll\<close>.\<close>

definition MkdirAll :: "string \<Rightarrow> filesystem \<Rightarrow> errno option \<times> filesystem" where
  "MkdirAll p fsys =
     (if p \<in> fs_dirs fsys then (None, fsys)
      else if fs_files fsys p \<noteq> None then (Some ENOTDIR, fsys)
      else mkdirs (ancestors p) fsys)"

text \<open>
  The two ways \<open>logger.go\<close> opens a file: \<open>O_APPEND|O_CREATE|O_WRONLY\<close> and
  \<open>O_CREATE|O_WRONLY|O_TRUNC\<close>.
\<close>

datatype openmode = AppendCreate | CreateTrunc

text \<open>
  The system call behind \<open>os.OpenFile\<close>: the inode opened, created when the path has none.
  The path must not pass through a regular file, must not name a directory, and every
  directory it passes through must exist.
\<close>

definition sys_open :: "string \<Rightarrow> openmode \<Rightarrow> filesystem \<Rightarrow> (errno + nat) \<times> filesystem" where
  "sys_open p mode fsys =
     (if p = [] then (Inl ENOENT, fsys)
      else if p \<in> fs_denied fsys then (Inl EACCES, fsys)
      else if \<exists>a \<in> set (through p). fs_files fsys a \<noteq> None then (Inl ENOTDIR, fsys)
      else if p \<in> fs_dirs fsys \<or> last p = slash then (Inl EISDIR, fsys)
      else if Dir p \<notin> fs_dirs fsys \<or> (\<exists>a \<in> set (through p). Clean a \<notin> fs_dirs fsys)
        then (Inl ENOENT, fsys)
      else case fs_files fsys p of
          Some i \<Rightarrow>
            (Inr i, if mode = CreateTrunc then fsys\<lparr>fs_data := (fs_data fsys)(i \<mapsto> [])\<rparr> else fsys)
        | None \<Rightarrow>
            (Inr (fs_fresh fsys),
             fsys\<lparr>fs_files := (fs_files fsys)(p \<mapsto> fs_fresh fsys),
                  fs_data := (fs_data fsys)(fs_fresh fsys \<mapsto> []),
                  fs_fresh := Suc (fs_fresh fsys)\<rparr>))"

text \<open>\<open>os.Rename\<close> of a regular file; an existing file at the new path is replaced.\<close>

definition Rename :: "string \<Rightarrow> string \<Rightarrow> filesystem \<Rightarrow> errno option \<times> filesystem" where
  "Rename oldpath newpath fsys =
     (if oldpath \<in> fs_denied fsys \<or> newpath \<in> fs_denied fsys then (Some EACCES, fsys)
      else case fs_files fsys oldpath of
          None \<Rightarrow> (Some ENOENT, fsys)
        | Some i \<Rightarrow>
            if newpath \<in> fs_dirs fsys then (Some EISDIR, fsys)
            else if Dir newpath \<notin> fs_dirs fsys then (Some ENOENT, fsys)
            else (None, fsys\<lparr>fs_files := ((fs_files fsys)(oldpath := None))(newpath \<mapsto> i)\<rparr>))"

definition append_data :: "nat \<Rightarrow> string \<Rightarrow> filesystem \<Rightarrow> filesystem" where
  "append_data i p fsys =
     fsys\<lparr>fs_data := (fs_data fsys)(i \<mapsto> (case fs_data fsys i of None \<Rightarrow> [p] | Some d \<Rightarrow> d @ [p]))\<rparr>"

text \<open>An \<open>os.File\<close> object.\<close>

record os_file =
  f_name :: string
  f_inode :: nat
  f_closed :: bool

text \<open>
  The package-level variables of \<open>logger.go\<close> (\<open>nil\<close> is \<open>None\<close>), the default logger of
  package \<open>log\<close>, the store of \<open>os.File\<close> objects by address, the file system, what was
  written to the standard streams, and the clock. A call reads the clock where the code
  calls \<open>time.Now()\<close>; the passing of time is a change of that field from outside.
\<close>

record world =
  currentLevel :: int
  debugLogger :: "channel option"
  infoLogger :: "channel option"
  warningLogger :: "channel option"
  errorLogger :: "channel option"
  fatalLogger :: "channel option"
  logFile :: "nat option"
  std :: channel
  files :: "nat \<rightharpoonup> os_file"
  next_file :: nat
  disk :: filesystem
  stdout :: "string list"
  stderr :: "string list"
  now :: timestamp

text \<open>How a call ends: it returns, the process exits with a status, or it panics.\<close>

datatype 'a exec = Returned 'a | Exited int world | Panicked

text \<open>
  \<open>Write\<close> on a writer. A closed file refuses it; \<open>io.MultiWriter\<close> writes to its
  writers in order and stops at the first error.
\<close>

fun Write :: "writer \<Rightarrow> string \<Rightarrow> world \<Rightarrow> errno option \<times> world"
  and Write_each :: "writer list \<Rightarrow> string \<Rightarrow> world \<Rightarrow> errno option \<times> world" where
  "Write Stdout p w = (None, w\<lparr>stdout := stdout w @ [p]\<rparr>)"
| "Write Stderr p w = (None, w\<lparr>stderr := stderr w @ [p]\<rparr>)"
| "Write (FileWriter h) p w =
     (case files w h of
        None \<Rightarrow> (Some EBADF, w)
      | Some f \<Rightarrow>
          if f_closed f then (Some EBADF, w)
          else (None, w\<lparr>disk := append_data (f_inode f) p (disk w)\<rparr>))"
| "Write (MultiWriter ws) p w = Write_each ws p w"
| "Write_each [] p w = (None, w)"
| "Write_each (x # xs) p w =
     (case Write x p w of
        (Some e, w') \<Rightarrow> (Some e, w')
      | (None, w') \<Rightarrow> Write_each xs p w')"

text \<open>
  \<open>(*log.Logger).output\<close>: header, message and a final newline when the message has none,
  in one \<open>Write\<close> whose error is dropped. \<open>file\<close> and \<open>line\<close> are the place of the call to
  \<open>Printf\<close> or \<open>Print\<close>.
\<close>

definition logger_output :: "channel \<Rightarrow> string \<Rightarrow> int \<Rightarrow> string \<Rightarrow> world \<Rightarrow> world" where
  "logger_output l file line s w =
     snd (Write (l_out l)
            (formatHeader (now w) (l_prefix l) (l_flags l) file line @ s
             @ (if s = [] \<or> last s \<noteq> newline then [newline] else []))
            w)"

text \<open>\<open>os.OpenFile\<close>: a new file object at a fresh address.\<close>

definition OpenFile :: "string \<Rightarrow> openmode \<Rightarrow> world \<Rightarrow> (errno + nat) \<times> world" where
  "OpenFile p mode w =
     (case sys_open p mode (disk w) of
        (Inl e, d) \<Rightarrow> (Inl e, w\<lparr>disk := d\<rparr>)
      | (Inr i, d) \<Rightarrow>
          (Inr (next_file w),
           w\<lparr>disk := d,
             files := (files w)(next_file w \<mapsto> \<lparr>f_name = p, f_inode = i, f_closed = False\<rparr>),
             next_file := Suc (next_file w)\<rparr>))"

text \<open>\<open>(*os.File).Close\<close>: closing a closed file is an error and changes nothing.\<close>

definition file_Close :: "nat \<Rightarrow> world \<Rightarrow> errno option \<times> world" where
  "file_Close h w =
     (case files w h of
        None \<Rightarrow> (Some EBADF, w)
      | Some f \<Rightarrow>
          if f_closed f then (Some EBADF, w)
          else (None, w\<lparr>files := (files w)(h \<mapsto> f\<lparr>f_closed := True\<rparr>)\<rparr>))"

section \<open>logger.go\<close>

definition LevelDebug :: int where "LevelDebug = 0"
definition LevelInfo :: int where "LevelInfo = 1"
definition LevelWarning :: int where "LevelWarning = 2"
definition LevelError :: int where "LevelError = 3"
definition LevelFatal :: int where "LevelFatal = 4"

text \<open>
  The errors \<open>InitLogger\<close> and \<open>RotateLogFile\<close> return, one per message:
  \<open>failed to create logs directory\<close>, \<open>failed to open log file\<close>,
  \<open>failed to rename log file\<close>, \<open>failed to open new log file\<close>, each with its cause.
\<close>

datatype error =
  CreateLogsDirFailed errno
  | OpenLogFileFailed errno
  | RenameLogFileFailed errno
  | OpenNewLogFileFailed errno

text \<open>
  The package at process start: level \<open>LevelInfo\<close>, the five loggers and \<open>logFile\<close> nil,
  the default logger of package \<open>log\<close> as that package creates it.
\<close>

definition start :: "filesystem \<Rightarrow> timestamp \<Rightarrow> world" where
  "start fsys t =
     \<lparr>currentLevel = LevelInfo,
      debugLogger = None, infoLogger = None, warningLogger = None,
      errorLogger = None, fatalLogger = None,
      logFile = None,
      std = \<lparr>l_prefix = [], l_flags = {Ldate, Ltime}, l_out = Stderr\<rparr>,
      files = Map.empty, next_file = 0,
      disk = fsys, stdout = [], stderr = [], now = t\<rparr>"

text \<open>Lines 88 to 98 of \<open>InitLogger\<close>: the five loggers and the default logger on one writer.\<close>

definition install :: "writer \<Rightarrow> logflag set \<Rightarrow> world \<Rightarrow> world" where
  "install out flags w =
     w\<lparr>debugLogger := Some \<lparr>l_prefix = ''[DEBUG] '', l_flags = flags, l_out = out\<rparr>,
       infoLogger := Some \<lparr>l_prefix = ''[INFO] '', l_flags = flags, l_out = out\<rparr>,
       warningLogger := Some \<lparr>l_prefix = ''[WARN] '', l_flags = flags, l_out = out\<rparr>,
       errorLogger := Some \<lparr>l_prefix = ''[ERROR] '', l_flags = flags, l_out = out\<rparr>,
       fatalLogger := Some \<lparr>l_prefix = ''[FATAL] '', l_flags = flags, l_out = out\<rparr>,
       std := \<lparr>l_prefix = ''[LOG] '', l_flags = flags, l_out = out\<rparr>\<rparr>"

definition InitLogger :: "int \<Rightarrow> bool \<Rightarrow> string \<Rightarrow> world \<Rightarrow> error option \<times> world" where
  "InitLogger level logToFile logFileName w0 =
     (let w1 = w0\<lparr>currentLevel := level\<rparr>;
          flags = {Ldate, Ltime, Lshortfile}
      in
      if logToFile \<and> logFileName \<noteq> [] then
        (let logsDir = Dir logFileName;
             made = (if stat_not_exist (disk w1) logsDir then MkdirAll logsDir (disk w1)
                     else (None, disk w1))
         in case fst made of
              Some e \<Rightarrow> (Some (CreateLogsDirFailed e), w1\<lparr>disk := snd made\<rparr>)
            | None \<Rightarrow>
                (case OpenFile logFileName AppendCreate (w1\<lparr>disk := snd made\<rparr>) of
                   (Inl e, w2) \<Rightarrow> (Some (OpenLogFileFailed e), w2\<lparr>logFile := None\<rparr>)
                 | (Inr h, w2) \<Rightarrow>
                     (None,
                      install (MultiWriter [Stdout, FileWriter h]) flags
                        (w2\<lparr>logFile := Some h\<rparr>))))
      else (None, install Stdout flags w1))"

definition CloseLogger :: "world \<Rightarrow> world" where
  "CloseLogger w = (case logFile w of None \<Rightarrow> w | Some h \<Rightarrow> snd (file_Close h w))"

definition getLogger :: "int \<Rightarrow> world \<Rightarrow> channel option" where
  "getLogger level w =
     (if level = LevelDebug then debugLogger w
      else if level = LevelInfo then infoLogger w
      else if level = LevelWarning then warningLogger w
      else if level = LevelError then errorLogger w
      else if level = LevelFatal then fatalLogger w
      else infoLogger w)"

text \<open>The format \<open>%s:%d: %s\<close> of lines 141 and 144 on its three operands.\<close>

definition located :: "string \<Rightarrow> int \<Rightarrow> string \<Rightarrow> string" where
  "located file line msg = file @ '':'' @ itoa line @ [CHR '':'', CHR 0x20] @ msg"

text \<open>
  \<open>caller\<close> is what \<open>runtime.Caller(2)\<close> gives: the file and line of the call to the leveled
  operation, or nothing when the frame cannot be read. A nil logger panics at its
  \<open>Printf\<close>. The four calls to the logger stand on lines 141, 144, 148 and 150 of
  \<open>logger.go\<close>, which is what the logger's own \<open>Lshortfile\<close> reports.
\<close>

definition logWithCallerInfo ::
  "formatter \<Rightarrow> (string \<times> int) option \<Rightarrow> int \<Rightarrow> string \<Rightarrow> arg list \<Rightarrow> world \<Rightarrow> world exec" where
  "logWithCallerInfo Sprintf caller level format v w =
     (if level < currentLevel w then Returned w
      else case getLogger level w of
          None \<Rightarrow> Panicked
        | Some logger \<Rightarrow>
            (case caller of
               Some (file, line) \<Rightarrow>
                 if format = []
                 then Returned (logger_output logger ''logger.go'' 141
                                  (located (Base file) line (Sprint v)) w)
                 else Returned (logger_output logger ''logger.go'' 144
                                  (located (Base file) line (Sprintf format v)) w)
             | None \<Rightarrow>
                 if format = []
                 then Returned (logger_output logger ''logger.go'' 148 (Sprint v) w)
                 else Returned (logger_output logger ''logger.go'' 150 (Sprintf format v) w)))"

definition Debug :: "formatter \<Rightarrow> (string \<times> int) option \<Rightarrow> arg list \<Rightarrow> world \<Rightarrow> world exec" where
  "Debug Sprintf caller v w = logWithCallerInfo Sprintf caller LevelDebug [] v w"

definition Debugf ::
  "formatter \<Rightarrow> (string \<times> int) option \<Rightarrow> string \<Rightarrow> arg list \<Rightarrow> world \<Rightarrow> world exec" where
  "Debugf Sprintf caller format v w = logWithCallerInfo Sprintf caller LevelDebug format v w"

definition Info :: "formatter \<Rightarrow> (string \<times> int) option \<Rightarrow> arg list \<Rightarrow> world \<Rightarrow> world exec" where
  "Info Sprintf caller v w = logWithCallerInfo Sprintf caller LevelInfo [] v w"

definition Infof ::
  "formatter \<Rightarrow> (string \<times> int) option \<Rightarrow> string \<Rightarrow> arg list \<Rightarrow> world \<Rightarrow> world exec" where
  "Infof Sprintf caller format v w = logWithCallerInfo Sprintf caller LevelInfo format v w"

definition Warning :: "formatter \<Rightarrow> (string \<times> int) option \<Rightarrow> arg list \<Rightarrow> world \<Rightarrow> world exec" where
  "Warning Sprintf caller v w = logWithCallerInfo Sprintf caller LevelWarning [] v w"

definition Warningf ::
  "formatter \<Rightarrow> (string \<times> int) option \<Rightarrow> string \<Rightarrow> arg list \<Rightarrow> world \<Rightarrow> world exec" where
  "Warningf Sprintf caller format v w = logWithCallerInfo Sprintf caller LevelWarning format v w"

definition Error :: "formatter \<Rightarrow> (string \<times> int) option \<Rightarrow> arg list \<Rightarrow> world \<Rightarrow> world exec" where
  "Error Sprintf caller v w = logWithCallerInfo Sprintf caller LevelError [] v w"

definition Errorf ::
  "formatter \<Rightarrow> (string \<times> int) option \<Rightarrow> string \<Rightarrow> arg list \<Rightarrow> world \<Rightarrow> world exec" where
  "Errorf Sprintf caller format v w = logWithCallerInfo Sprintf caller LevelError format v w"

text \<open>\<open>os.Exit(1)\<close> after the call returns.\<close>

definition then_exit :: "world exec \<Rightarrow> world exec" where
  "then_exit r = (case r of Returned w \<Rightarrow> Exited 1 w | Exited c w \<Rightarrow> Exited c w | Panicked \<Rightarrow> Panicked)"

definition Fatal :: "formatter \<Rightarrow> (string \<times> int) option \<Rightarrow> arg list \<Rightarrow> world \<Rightarrow> world exec" where
  "Fatal Sprintf caller v w = then_exit (logWithCallerInfo Sprintf caller LevelFatal [] v w)"

definition Fatalf ::
  "formatter \<Rightarrow> (string \<times> int) option \<Rightarrow> string \<Rightarrow> arg list \<Rightarrow> world \<Rightarrow> world exec" where
  "Fatalf Sprintf caller format v w =
     then_exit (logWithCallerInfo Sprintf caller LevelFatal format v w)"

text \<open>
  Lines 216 to 224 of \<open>RotateLogFile\<close>: the path the closed file is renamed to, from the
  name of the file and the time of the call.
\<close>

definition rotated_path :: "string \<Rightarrow> timestamp \<Rightarrow> string" where
  "rotated_path name t =
     (let (dir, filename) = Split name;
          ext = Ext filename;
          baseFilename = TrimSuffix filename ext;
          timestamp = rotation_stamp t;
          newFilename = baseFilename @ ''-'' @ timestamp @ ext
      in Join [dir, newFilename])"

text \<open>Lines 242 to 247: \<open>SetOutput\<close> on the five loggers, which panics on a nil one, and on the default logger.\<close>

definition repoint :: "writer \<Rightarrow> world \<Rightarrow> world exec" where
  "repoint out w =
     (case (debugLogger w, infoLogger w, warningLogger w, errorLogger w, fatalLogger w) of
        (Some d, Some i, Some wa, Some e, Some f) \<Rightarrow>
          Returned (w\<lparr>debugLogger := Some (d\<lparr>l_out := out\<rparr>),
                      infoLogger := Some (i\<lparr>l_out := out\<rparr>),
                      warningLogger := Some (wa\<lparr>l_out := out\<rparr>),
                      errorLogger := Some (e\<lparr>l_out := out\<rparr>),
                      fatalLogger := Some (f\<lparr>l_out := out\<rparr>),
                      std := (std w)\<lparr>l_out := out\<rparr>\<rparr>)
      | _ \<Rightarrow> Panicked)"

text \<open>
  \<open>logFile\<close> is an address of the store; an address with no object behind it does not arise
  in Go, and the model stops there. The call to \<open>Info\<close> stands on line 249.
\<close>

definition RotateLogFile :: "formatter \<Rightarrow> world \<Rightarrow> (error option \<times> world) exec" where
  "RotateLogFile Sprintf w0 =
     (case logFile w0 of
        None \<Rightarrow> Returned (None, w0)
      | Some h \<Rightarrow>
          (case files w0 h of
             None \<Rightarrow> Panicked
           | Some f \<Rightarrow>
               (let w1 = snd (file_Close h w0);
                    newPath = rotated_path (f_name f) (now w1)
                in case Rename (f_name f) newPath (disk w1) of
                     (Some e, d) \<Rightarrow> Returned (Some (RenameLogFileFailed e), w1\<lparr>disk := d\<rparr>)
                   | (None, d) \<Rightarrow>
                       (case OpenFile (f_name f) CreateTrunc (w1\<lparr>disk := d\<rparr>) of
                          (Inl e, w2) \<Rightarrow>
                            Returned (Some (OpenNewLogFileFailed e), w2\<lparr>logFile := None\<rparr>)
                        | (Inr h', w2) \<Rightarrow>
                            (case repoint (MultiWriter [Stdout, FileWriter h'])
                                    (w2\<lparr>logFile := Some h'\<rparr>) of
                               Returned w3 \<Rightarrow>
                                 (case Info Sprintf (Some (''logger.go'', 249))
                                         [StrArg ''Log file rotated to'', StrArg newPath] w3 of
                                    Returned w4 \<Rightarrow> Returned (None, w4)
                                  | Exited c x \<Rightarrow> Exited c x
                                  | Panicked \<Rightarrow> Panicked)
                             | Exited c x \<Rightarrow> Exited c x
                             | Panicked \<Rightarrow> Panicked)))))"

section \<open>Notions the properties are stated with\<close>

text \<open>A writer whose first destination is the standard output.\<close>

fun reaches_stdout :: "writer \<Rightarrow> bool" where
  "reaches_stdout Stdout = True"
| "reaches_stdout (MultiWriter (Stdout # ws)) = True"
| "reaches_stdout x = False"

definition on_console :: "channel option \<Rightarrow> bool" where
  "on_console l = (case l of None \<Rightarrow> False | Some c \<Rightarrow> reaches_stdout (l_out c))"

text \<open>The five loggers exist and write to the console: the state a successful \<open>InitLogger\<close> leaves.\<close>

definition ready :: "world \<Rightarrow> bool" where
  "ready w =
     (on_console (debugLogger w) \<and> on_console (infoLogger w) \<and> on_console (warningLogger w)
      \<and> on_console (errorLogger w) \<and> on_console (fatalLogger w))"

text \<open>Each of the five loggers exists and writes to \<open>out\<close>.\<close>

definition wired :: "writer \<Rightarrow> world \<Rightarrow> bool" where
  "wired out w =
     (map_option l_out (debugLogger w) = Some out \<and> map_option l_out (infoLogger w) = Some out
      \<and> map_option l_out (warningLogger w) = Some out \<and> map_option l_out (errorLogger w) = Some out
      \<and> map_option l_out (fatalLogger w) = Some out)"

text \<open>
  A call at severity \<open>S\<close> from state \<open>w\<close> with result \<open>r\<close> obeys the threshold: it
  returned, it wrote to the console exactly when \<open>S\<close> is at or through the current level,
  and below the level it left the state as it was.
\<close>

definition gated :: "world \<Rightarrow> int \<Rightarrow> world exec \<Rightarrow> bool" where
  "gated w S r =
     (case r of
        Returned w' \<Rightarrow>
          (currentLevel w \<le> S \<longleftrightarrow> stdout w' \<noteq> stdout w) \<and> (S < currentLevel w \<longrightarrow> w' = w)
      | Exited c w' \<Rightarrow> False
      | Panicked \<Rightarrow> False)"

text \<open>What a call returned, when it returned.\<close>

definition returned :: "'a exec \<Rightarrow> 'a option" where
  "returned r = (case r of Returned x \<Rightarrow> Some x | Exited c w \<Rightarrow> None | Panicked \<Rightarrow> None)"

text \<open>The data of the regular file at a path.\<close>

definition file_data :: "world \<Rightarrow> string \<Rightarrow> string list option" where
  "file_data w p = (case fs_files (disk w) p of None \<Rightarrow> None | Some i \<Rightarrow> fs_data (disk w) i)"

text \<open>Every inode a directory entry names has been handed out: new inodes are new.\<close>

definition sound_disk :: "filesystem \<Rightarrow> bool" where
  "sound_disk d = (\<forall>p i. fs_files d p = Some i \<longrightarrow> i < fs_fresh d)"

text \<open>A reading of the clock in the ranges \<open>time.Now()\<close> gives, for the years 0 to 9999.\<close>

definition calendar :: "timestamp \<Rightarrow> bool" where
  "calendar t =
     (t_year t < 10000 \<and> 1 \<le> t_month t \<and> t_month t \<le> 12 \<and> 1 \<le> t_day t \<and> t_day t \<le> 31
      \<and> t_hour t < 24 \<and> t_minute t < 60 \<and> t_second t < 60)"

subsection \<open>The interface as documented, for comparison\<close>

text \<open>
  The documented rule for the unformatted operations: the operands' texts with one space
  between each two neighbours.
\<close>

definition space_joined :: "arg list \<Rightarrow> string" where
  "space_joined v = join_with [CHR 0x20] (map show_arg v)"

text \<open>
  The documented line: prefix, date, time, the base name and line of the call site, and
  the message, with nothing else between them.
\<close>

definition documented_line :: "string \<Rightarrow> timestamp \<Rightarrow> string \<Rightarrow> int \<Rightarrow> string \<Rightarrow> string" where
  "documented_line prefix t file line msg =
     formatHeader t prefix {Ldate, Ltime} [] 0 @ located (Base file) line msg @ [newline]"

subsection \<open>Sample inputs\<close>

definition demo_clock :: timestamp where
  "demo_clock =
     \<lparr>t_year = 2023, t_month = 3, t_day = 8, t_hour = 15, t_minute = 30, t_second = 45\<rparr>"

text \<open>A file system with the working directory alone, and one that refuses \<open>logs\<close>.\<close>

definition demo_disk :: filesystem where
  "demo_disk =
     \<lparr>fs_dirs = {''.''}, fs_files = Map.empty, fs_data = Map.empty, fs_denied = {}, fs_fresh = 0\<rparr>"

definition locked_disk :: filesystem where
  "locked_disk = demo_disk\<lparr>fs_denied := {''logs''}\<rparr>"

text \<open>\<open>fmt.Sprintf\<close> on templates without verbs and no operands.\<close>

definition no_verbs :: formatter where
  "no_verbs format v = format"

text \<open>After \<open>InitLogger(LevelWarning, false, "")\<close> and after \<open>InitLogger(LevelDebug, true, "logs/demo.log")\<close>.\<close>

definition console_world :: world where
  "console_world = snd (InitLogger LevelWarning False [] (start demo_disk demo_clock))"

definition file_world :: world where
  "file_world = snd (InitLogger LevelDebug True ''logs/demo.log'' (start demo_disk demo_clock))"

text \<open>\<open>InitLogger(LevelDebug, true, "logs/demo.log")\<close> at process start where \<open>logs\<close> cannot be created.\<close>

definition failed_init :: "error option \<times> world" where
  "failed_init = InitLogger LevelDebug True ''logs/demo.log'' (start locked_disk demo_clock)"

text \<open>
  \<open>InitLogger(LevelInfo, true, "a/b/c.log")\<close> at process start where \<open>a\<close> can be created
  and \<open>a/b\<close> cannot.
\<close>

definition nested_disk :: filesystem where
  "nested_disk = demo_disk\<lparr>fs_denied := {''a/b''}\<rparr>"

definition partial_init :: "error option \<times> world" where
  "partial_init = InitLogger LevelInfo True ''a/b/c.log'' (start nested_disk demo_clock)"

text \<open>
  \<open>InitLogger(LevelError, true, "logs/other.log")\<close> from \<open>file_world\<close> where the system
  refuses \<open>logs/other.log\<close>.
\<close>

definition refused_file_world :: world where
  "refused_file_world =
     file_world\<lparr>disk := (disk file_world)\<lparr>fs_denied := {''logs/other.log''}\<rparr>\<rparr>"

definition reinit_failed :: "error option \<times> world" where
  "reinit_failed = InitLogger LevelError True ''logs/other.log'' refused_file_world"

text \<open>The state that failed call leaves, after \<open>Error("e")\<close> on line 22 of \<open>demo.go\<close>.\<close>

definition reinit_logged :: world where
  "reinit_logged =
     (case Error no_verbs (Some (''/app/demo.go'', 22)) [StrArg ''e''] (snd reinit_failed) of
        Returned w \<Rightarrow> w | Exited c w \<Rightarrow> w | Panicked \<Rightarrow> snd reinit_failed)"

text \<open>The state of \<open>file_world\<close> once the system refuses every call on the log file's path.\<close>

definition denied_file_world :: world where
  "denied_file_world =
     file_world\<lparr>disk := (disk file_world)\<lparr>fs_denied := {''logs/demo.log''}\<rparr>\<rparr>"

text \<open>\<open>file_world\<close> after \<open>Debug("x")\<close> on line 19 of \<open>demo.go\<close>, and that state after \<open>RotateLogFile\<close>.\<close>

definition used_file_world :: world where
  "used_file_world =
     (case Debug no_verbs (Some (''/app/demo.go'', 19)) [StrArg ''x''] file_world of
        Returned w \<Rightarrow> w | Exited c w \<Rightarrow> w | Panicked \<Rightarrow> file_world)"

definition rotated_world :: world where
  "rotated_world =
     (case RotateLogFile no_verbs used_file_world of
        Returned (e, w) \<Rightarrow> w | Exited c w \<Rightarrow> w | Panicked \<Rightarrow> used_file_world)"

text \<open>\<open>file_world\<close> after \<open>CloseLogger\<close>, and that state after \<open>RotateLogFile\<close>.\<close>

definition closed_world :: world where
  "closed_world = CloseLogger file_world"

definition reopened_world :: world where
  "reopened_world =
     (case RotateLogFile no_verbs closed_world of
        Returned (e, w) \<Rightarrow> w | Exited c w \<Rightarrow> w | Panicked \<Rightarrow> closed_world)"

section \<open>Evaluating the sample inputs\<close>

lemma Dir_demo: "Dir ''logs/demo.log'' = ''logs''"
  by code_simp

lemma through_demo: "through ''logs/demo.log'' = [''logs'']"
  by code_simp

lemma ancestors_logs: "ancestors ''logs'' = [''logs'']"
  by code_simp

lemma Clean_logs: "Clean ''logs'' = ''logs''"
  by code_simp

lemma console_world_eq:
  "console_world =
     install Stdout {Ldate, Ltime, Lshortfile}
       ((start demo_disk demo_clock)\<lparr>currentLevel := LevelWarning\<rparr>)"
  by (simp add: console_world_def InitLogger_def)

lemma file_world_eq:
  "file_world =
     install (MultiWriter [Stdout, FileWriter 0]) {Ldate, Ltime, Lshortfile}
       ((start demo_disk demo_clock)
          \<lparr>currentLevel := LevelDebug,
           disk := demo_disk\<lparr>fs_dirs := {''.'', ''logs''},
                     fs_files := [''logs/demo.log'' \<mapsto> 0], fs_data := [0 \<mapsto> []],
                     fs_fresh := Suc 0\<rparr>,
           files := [0 \<mapsto> \<lparr>f_name = ''logs/demo.log'', f_inode = 0, f_closed = False\<rparr>],
           next_file := Suc 0, logFile := Some 0\<rparr>)"
  by (simp add: file_world_def InitLogger_def Let_def Dir_demo ancestors_logs through_demo
      Clean_logs start_def demo_disk_def stat_not_exist_def MkdirAll_def OpenFile_def
      sys_open_def install_def insert_commute slash_def)

lemma failed_init_eq:
  "failed_init = (Some (CreateLogsDirFailed EACCES),
                  (start locked_disk demo_clock)\<lparr>currentLevel := LevelDebug\<rparr>)"
  by (simp add: failed_init_def InitLogger_def Let_def Dir_demo ancestors_logs start_def
      locked_disk_def demo_disk_def stat_not_exist_def MkdirAll_def through_def)

section \<open>Paths\<close>

lemma after_last_slash_none:
  assumes "slash \<notin> set c"
  shows "after_last_slash c = c"
proof -
  have h: "takeWhile (\<lambda>x. x \<noteq> slash) (rev c) = rev c"
    by (rule takeWhile_eq_all_conv [THEN iffD2]) (use assms in auto)
  show ?thesis unfolding after_last_slash_def h by simp
qed

lemma after_last_slash_snoc:
  assumes "slash \<notin> set c"
  shows "after_last_slash (x @ slash # c) = c"
proof -
  have h: "takeWhile (\<lambda>x. x \<noteq> slash) (rev c @ slash # rev x) = rev c"
    using assms by (subst takeWhile_append2) auto
  have r: "rev (x @ slash # c) = rev c @ slash # rev x" by simp
  show ?thesis unfolding after_last_slash_def r h by simp
qed

lemma after_last_slash_free: "slash \<notin> set (after_last_slash p)"
  unfolding after_last_slash_def
  by (auto dest: set_takeWhileD)

lemma rev_takeWhile_rev:
  "rev (takeWhile P (rev p)) = drop (length p - length (takeWhile P (rev p))) p"
  by (metis rev_rev_ident takeWhile_eq_take take_rev)

lemma Split_append: "fst (Split p) @ snd (Split p) = p"
  by (simp add: Split_def after_last_slash_def rev_takeWhile_rev [symmetric])
     (simp add: rev_takeWhile_rev)

text \<open>A list splits at its last occurrence of an element.\<close>

lemma split_at_last:
  assumes "a \<in> set xs"
  shows "\<exists>pre. xs = pre @ a # rev (takeWhile (\<lambda>x. x \<noteq> a) (rev xs))"
proof -
  let ?t = "takeWhile (\<lambda>x. x \<noteq> a) (rev xs)" and ?d = "dropWhile (\<lambda>x. x \<noteq> a) (rev xs)"
  have "?d \<noteq> []" using assms by (simp add: dropWhile_eq_Nil_conv)
  moreover have "?d \<noteq> [] \<Longrightarrow> hd ?d = a" using hd_dropWhile [of "\<lambda>x. x \<noteq> a" "rev xs"] by simp
  ultimately obtain r where d: "?d = a # r" by (cases ?d) auto
  have "rev xs = ?t @ ?d" by simp
  then have "xs = rev ?d @ rev ?t" by (metis rev_append rev_rev_ident)
  with d have "xs = rev r @ a # rev ?t" by simp
  then show ?thesis by (rule exI [of _ "rev r"])
qed

lemma TrimSuffix_append: "TrimSuffix (b @ s) s = b"
  by (simp add: TrimSuffix_def)

lemma Ext_splits:
  assumes "slash \<notin> set file"
  shows "TrimSuffix file (Ext file) @ Ext file = file"
proof (cases "CHR ''.'' \<in> set file")
  case True
  from split_at_last [OF True] obtain pre where
    p: "file = pre @ CHR ''.'' # rev (takeWhile (\<lambda>x. x \<noteq> CHR ''.'') (rev file))" by blast
  have e: "Ext file = CHR ''.'' # rev (takeWhile (\<lambda>x. x \<noteq> CHR ''.'') (rev file))"
    using True by (simp add: Ext_def after_last_slash_none [OF assms])
  have "TrimSuffix file (Ext file) = pre"
    by (subst p, subst e, rule TrimSuffix_append [of pre])
  with p e show ?thesis by simp
next
  case False
  then have "Ext file = []" by (simp add: Ext_def after_last_slash_none [OF assms])
  then show ?thesis by (simp add: TrimSuffix_def)
qed

lemma digit_in: "digit n \<in> set ''0123456789''"
  unfolding digit_def by (rule nth_mem) simp

lemma digits_in: "set (digits n) \<subseteq> set ''0123456789''"
proof (induction n rule: digits.induct)
  case (1 n)
  show ?case
  proof (cases "n < 10")
    case True
    then show ?thesis using digit_in [of n] by (subst digits.simps) simp
  next
    case False
    with 1 digit_in [of n] show ?thesis by (subst digits.simps) simp
  qed
qed

lemma pad_in: "set (pad k n) \<subseteq> set ''0123456789''"
  using digits_in [of n] by (auto simp: pad_def)

lemma rotation_stamp_chars: "set (rotation_stamp t) \<subseteq> set ''0123456789-''"
  using pad_in by (fastforce simp: rotation_stamp_def)

lemma rotation_stamp_no_slash: "slash \<notin> set (rotation_stamp t)"
  using rotation_stamp_chars [of t] by (auto simp: slash_def)


lemma elements_step_append:
  "foldr (\<lambda>c acc. if c = slash then [] # acc else (c # hd acc) # tl acc) p (x # rest)
     = foldr (\<lambda>c acc. if c = slash then [] # acc else (c # hd acc) # tl acc) p [x] @ rest
   \<and> foldr (\<lambda>c acc. if c = slash then [] # acc else (c # hd acc) # tl acc) p [x] \<noteq> []"
  by (induction p) auto

lemma elements_single: "slash \<notin> set c \<Longrightarrow> elements c = [c]"
  unfolding elements_def by (induction c) auto

lemma elements_snoc:
  assumes "slash \<notin> set c"
  shows "elements (p @ slash # c) = elements p @ [c]"
proof -
  have "elements (slash # c) = [[], c]"
    using elements_single [OF assms] by (simp add: elements_def)
  then have "elements (p @ slash # c)
      = foldr (\<lambda>c acc. if c = slash then [] # acc else (c # hd acc) # tl acc) p [[], c]"
    by (simp add: elements_def)
  then show ?thesis
    using elements_step_append [of p "[]" "[c]"] by (simp add: elements_def)
qed

lemma join_with_snoc:
  "join_with sep (st @ [c]) = (if st = [] then c else join_with sep st @ sep @ c)"
  by (induction sep st rule: join_with.induct) auto


lemma Clean_plain: "plain_element c \<Longrightarrow> Clean c = c"
  by (cases c) (auto simp: plain_element_def Clean_def elements_single clean_step_def)

lemma Clean_snoc_plain:
  assumes "plain_element c"
  shows "\<exists>y. Clean (p @ slash # c) = y @ c \<and> (y = [] \<or> last y = slash)"
proof -
  let ?r = "hd (p @ slash # c) = slash"
  let ?st = "foldl (clean_step ?r) [] (elements p)"
  have c: "slash \<notin> set c" "c \<noteq> []" using assms by (auto simp: plain_element_def)
  have st: "foldl (clean_step ?r) [] (elements (p @ slash # c)) = ?st @ [c]"
    using assms by (simp add: elements_snoc [OF c(1)] clean_step_def plain_element_def)
  have "Clean (p @ slash # c)
          = (if ?r then [slash] else []) @ (if ?st = [] then c else join_with [slash] ?st @ [slash] @ c)"
    using c(2) by (simp add: Clean_def st join_with_snoc Let_def del: foldl_append)
  then show ?thesis
  proof (cases "?st = []")
    case True
    then show ?thesis
      by (intro exI [of _ "if ?r then [slash] else []"])
        (auto simp: \<open>Clean (p @ slash # c) = _\<close> simp del: hd_append2)
  next
    case False
    then show ?thesis
      by (intro exI [of _ "(if ?r then [slash] else []) @ join_with [slash] ?st @ [slash]"])
        (auto simp: \<open>Clean (p @ slash # c) = _\<close> simp del: hd_append2)
  qed
qed

lemma Join_pair_plain:
  assumes "plain_element c"
  shows "\<exists>y. Join [d, c] = y @ c \<and> (y = [] \<or> last y = slash)"
proof (cases "d = []")
  case True
  have "c \<noteq> []" using assms by (simp add: plain_element_def)
  with True have "Join [d, c] = c" by (simp add: Join_def Clean_plain [OF assms])
  then show ?thesis by simp
next
  case False
  then have "Join [d, c] = Clean (d @ slash # c)" by (simp add: Join_def)
  with Clean_snoc_plain [OF assms, of d] show ?thesis by simp
qed


lemma Split_dir_shape: "fst (Split p) = [] \<or> last (fst (Split p)) = slash"
proof -
  let ?d = "dropWhile (\<lambda>c. c \<noteq> slash) (rev p)"
  have "rev p = takeWhile (\<lambda>c. c \<noteq> slash) (rev p) @ ?d" by simp
  then have "p = rev ?d @ after_last_slash p"
    unfolding after_last_slash_def by (metis rev_append rev_rev_ident)
  with Split_append [of p] have d: "fst (Split p) = rev ?d"
    by (simp add: Split_def) (metis append_same_eq)
  have "?d \<noteq> [] \<Longrightarrow> hd ?d = slash"
    using hd_dropWhile [of "\<lambda>c. c \<noteq> slash" "rev p"] by simp
  then show ?thesis unfolding d by (cases ?d) auto
qed

lemma stamped_plain:
  assumes "slash \<notin> set b" and "slash \<notin> set e"
  shows "plain_element (b @ ''-'' @ rotation_stamp t @ e)"
  using assms rotation_stamp_no_slash [of t]
  by (auto simp: plain_element_def slash_def append_eq_Cons_conv Cons_eq_append_conv)

lemma rotated_path_shape:
  "\<exists>dir base ext y.
      name = dir @ base @ ext \<and> slash \<notin> set (base @ ext) \<and> (dir = [] \<or> last dir = slash)
      \<and> Ext name = ext
      \<and> rotated_path name t = Join [dir, base @ ''-'' @ rotation_stamp t @ ext]
      \<and> rotated_path name t = y @ base @ ''-'' @ rotation_stamp t @ ext
      \<and> (y = [] \<or> last y = slash)"
proof -
  let ?dir = "fst (Split name)" and ?file = "after_last_slash name"
  let ?ext = "Ext ?file"
  let ?base = "TrimSuffix ?file ?ext"
  have free: "slash \<notin> set ?file" by (rule after_last_slash_free)
  have be: "?base @ ?ext = ?file" by (rule Ext_splits [OF free])
  then have free': "slash \<notin> set ?base" "slash \<notin> set ?ext"
    using free by (metis Un_iff set_append)+
  have ext: "Ext name = ?ext"
    by (simp add: Ext_def after_last_slash_none [OF free])
  have name: "name = ?dir @ ?base @ ?ext"
    using Split_append [of name] be by (simp add: Split_def)
  have rp: "rotated_path name t = Join [?dir, ?base @ ''-'' @ rotation_stamp t @ ?ext]"
    by (simp add: rotated_path_def Split_def Let_def)
  from Join_pair_plain [OF stamped_plain [OF free']] obtain y where
    y: "Join [?dir, ?base @ ''-'' @ rotation_stamp t @ ?ext] = y @ ?base @ ''-'' @ rotation_stamp t @ ?ext"
       "y = [] \<or> last y = slash" by blast
  show ?thesis
    using name free be ext rp y Split_dir_shape [of name]
    by (intro exI [of _ ?dir] exI [of _ ?base] exI [of _ ?ext] exI [of _ y]) simp
qed

lemma after_last_slash_shape:
  assumes "slash \<notin> set c" and "y = [] \<or> last y = slash"
  shows "after_last_slash (y @ c) = c"
proof (cases "y = []")
  case True
  then show ?thesis by (simp add: after_last_slash_none [OF assms(1)])
next
  case False
  with assms(2) have "y = butlast y @ [slash]" by (metis append_butlast_last_id)
  then have "y @ c = butlast y @ slash # c" by (metis append.assoc append_Cons append_Nil)
  then have "after_last_slash (y @ c) = after_last_slash (butlast y @ slash # c)" by (rule arg_cong)
  also have "\<dots> = c" by (rule after_last_slash_snoc [OF assms(1)])
  finally show ?thesis .
qed

lemma rotated_path_differs: "rotated_path name t \<noteq> name"
proof
  assume eq: "rotated_path name t = name"
  from rotated_path_shape [of name t] obtain dir base ext y where
    s: "name = dir @ base @ ext" "slash \<notin> set (base @ ext)" "dir = [] \<or> last dir = slash"
       "rotated_path name t = y @ base @ ''-'' @ rotation_stamp t @ ext" "y = [] \<or> last y = slash"
    by blast
  have "slash \<notin> set (base @ ''-'' @ rotation_stamp t @ ext)"
    using s(2) rotation_stamp_no_slash [of t] by (auto simp: slash_def)
  from after_last_slash_shape [OF this s(5)] s(4)
  have a: "after_last_slash (rotated_path name t) = base @ ''-'' @ rotation_stamp t @ ext"
    by simp
  from after_last_slash_shape [OF s(2) s(3)] s(1)
  have b: "after_last_slash name = base @ ext" by simp
  from a b eq have "length (base @ ''-'' @ rotation_stamp t @ ext) = length (base @ ext)"
    by simp
  then show False by simp
qed

text \<open>The stamp has the layout of eight digits, a hyphen and six digits.\<close>

lemma digits_length: "n < 10 ^ k \<Longrightarrow> 0 < k \<Longrightarrow> length (digits n) \<le> k"
proof (induction n arbitrary: k rule: digits.induct)
  case (1 n)
  show ?case
  proof (cases "n < 10")
    case True
    with 1(3) show ?thesis by (subst digits.simps) simp
  next
    case False
    from 1(3) obtain j where k: "k = Suc j" by (cases k) auto
    with 1(2) False have j: "0 < j" by (cases j) auto
    from 1(2) k have "n div 10 < 10 ^ j"
      by (simp add: less_mult_imp_div_less mult.commute)
    from 1(1) [OF False this j] k False show ?thesis
      by (subst digits.simps) simp
  qed
qed

lemma digits_nonempty: "digits n \<noteq> []"
  by (subst digits.simps) simp

lemma pad_length: "n < 10 ^ k \<Longrightarrow> 0 < k \<Longrightarrow> length (pad k n) = k"
  using digits_length [of n k] by (simp add: pad_def)

lemma rotation_stamp_layout:
  assumes "calendar t"
  shows "length (rotation_stamp t) = 15 \<and> rotation_stamp t ! 8 = CHR ''-''"
proof -
  have y: "length (pad 4 (t_year t)) = 4"
    using assms by (intro pad_length) (simp_all add: calendar_def)
  have m: "length (pad 2 (t_month t)) = 2" "length (pad 2 (t_day t)) = 2"
    "length (pad 2 (t_hour t)) = 2" "length (pad 2 (t_minute t)) = 2"
    "length (pad 2 (t_second t)) = 2"
    using assms by (auto intro!: pad_length simp: calendar_def)
  show ?thesis
    by (simp add: rotation_stamp_def y m nth_append)
qed

section \<open>The level filter\<close>

lemma Write_stdout_grows:
  "length (stdout w) \<le> length (stdout (snd (Write x p w)))"
  "length (stdout w) \<le> length (stdout (snd (Write_each xs p w)))"
proof (induction x p w and xs p w rule: Write_Write_each.induct)
  case (6 x xs p w)
  then show ?case
    by (cases "Write x p w") (auto split: option.splits)
qed (auto split: option.splits)

lemma reaches_stdout_Write:
  assumes "reaches_stdout x"
  shows "length (stdout w) < length (stdout (snd (Write x p w)))"
proof (cases x rule: reaches_stdout.cases)
  case (2 ws)
  have "length (stdout (w\<lparr>stdout := stdout w @ [p]\<rparr>))
        \<le> length (stdout (snd (Write_each ws p (w\<lparr>stdout := stdout w @ [p]\<rparr>))))"
    by (rule Write_stdout_grows)
  with 2 show ?thesis by simp
qed (use assms in auto)

lemma getLogger_ready:
  "ready w \<Longrightarrow> \<exists>c. getLogger level w = Some c \<and> reaches_stdout (l_out c)"
  by (auto simp: ready_def on_console_def getLogger_def split: option.splits)

lemma ready_install: "reaches_stdout out \<Longrightarrow> ready (install out flags w)"
  by (simp add: ready_def on_console_def install_def)

lemma gated_logWithCallerInfo:
  assumes "ready w"
  shows "gated w level (logWithCallerInfo Sprintf caller level format v w)"
proof (cases "level < currentLevel w")
  case True
  then show ?thesis by (simp add: gated_def logWithCallerInfo_def)
next
  case False
  from getLogger_ready [OF assms] obtain c where
    c: "getLogger level w = Some c" "reaches_stdout (l_out c)" by blast
  have "stdout (logger_output c fl ln s w) \<noteq> stdout w" for fl ln s
    using reaches_stdout_Write [OF c(2), of w] unfolding logger_output_def
    by (metis less_irrefl)
  with False c(1) show ?thesis
    by (auto simp: gated_def logWithCallerInfo_def split: option.splits)
qed

lemma gated_then_exit: "gated w S r \<Longrightarrow> \<exists>w'. then_exit r = Exited 1 w' \<and> gated w S (Returned w')"
  by (cases r) (auto simp: gated_def then_exit_def)

lemma level_order:
  "LevelDebug < LevelInfo \<and> LevelInfo < LevelWarning \<and> LevelWarning < LevelError
   \<and> LevelError < LevelFatal"
  by (simp add: LevelDebug_def LevelInfo_def LevelWarning_def LevelError_def LevelFatal_def)

lemma InitLogger_ready:
  "InitLogger level logToFile logFileName w = (None, w') \<Longrightarrow> ready w' \<and> currentLevel w' = level"
  by (auto simp: InitLogger_def Let_def install_def ready_def on_console_def OpenFile_def
      split: option.splits prod.splits sum.splits if_splits)

lemma Write_keeps_loggers:
  "debugLogger (snd (Write x p w)) = debugLogger w \<and> infoLogger (snd (Write x p w)) = infoLogger w
   \<and> warningLogger (snd (Write x p w)) = warningLogger w
   \<and> errorLogger (snd (Write x p w)) = errorLogger w
   \<and> fatalLogger (snd (Write x p w)) = fatalLogger w"
  "debugLogger (snd (Write_each xs p w)) = debugLogger w
   \<and> infoLogger (snd (Write_each xs p w)) = infoLogger w
   \<and> warningLogger (snd (Write_each xs p w)) = warningLogger w
   \<and> errorLogger (snd (Write_each xs p w)) = errorLogger w
   \<and> fatalLogger (snd (Write_each xs p w)) = fatalLogger w"
proof (induction x p w and xs p w rule: Write_Write_each.induct)
  case (6 x xs p w)
  then show ?case
    by (cases "Write x p w") (auto split: option.splits)
qed (auto split: option.splits)

lemma ready_Write: "ready (snd (Write x p w)) = ready w"
  using Write_keeps_loggers(1) [of x p w] by (simp add: ready_def)

lemma ready_log:
  "ready w \<Longrightarrow> logWithCallerInfo Sprintf caller S format v w = Returned w1 \<Longrightarrow> ready w1"
  by (auto simp: logWithCallerInfo_def logger_output_def ready_Write
      split: if_splits option.splits prod.splits)

lemma ready_CloseLogger: "ready (CloseLogger w) = ready w"
  by (simp add: CloseLogger_def file_Close_def ready_def split: option.splits)

lemma ready_file_Close: "ready (snd (file_Close h w)) = ready w"
  by (simp add: file_Close_def ready_def split: option.splits)

lemma ready_InitLogger:
  "ready w \<Longrightarrow> ready (snd (InitLogger level logToFile logFileName w))"
  by (auto simp: InitLogger_def Let_def install_def ready_def on_console_def OpenFile_def
      split: option.splits prod.splits sum.splits if_splits)

lemma ready_repoint:
  "repoint (MultiWriter (Stdout # ws)) w = Returned w3 \<Longrightarrow> ready w3"
  by (auto simp: repoint_def ready_def on_console_def split: option.splits)

lemma ready_OpenFile: "ready (snd (OpenFile p mode w)) = ready w"
  by (auto simp: OpenFile_def ready_def split: prod.splits sum.splits)

lemma ready_RotateLogFile:
  assumes "ready w" and "RotateLogFile Sprintf w = Returned (e, w1)"
  shows "ready w1"
proof (cases "logFile w")
  case None
  with assms show ?thesis by (simp add: RotateLogFile_def)
next
  case (Some h)
  with assms(2) obtain f where f: "files w h = Some f"
    by (auto simp: RotateLogFile_def split: option.splits)
  let ?w1 = "snd (file_Close h w)"
  let ?ren = "Rename (f_name f) (rotated_path (f_name f) (now ?w1)) (disk ?w1)"
  have r1: "ready ?w1" using assms(1) by (simp add: ready_file_Close)
  show ?thesis
  proof (cases "fst ?ren")
    case (Some c)
    with assms(2) \<open>logFile w = Some h\<close> f r1 show ?thesis
      by (auto simp: RotateLogFile_def Let_def ready_def split: prod.splits)
  next
    case None
    let ?opn = "OpenFile (f_name f) CreateTrunc (?w1\<lparr>disk := snd ?ren\<rparr>)"
    have r2: "ready (snd ?opn)"
      using r1 by (simp add: ready_OpenFile) (simp add: ready_def)
    show ?thesis
    proof (cases "fst ?opn")
      case (Inl c)
      with assms(2) \<open>logFile w = Some h\<close> f None r2 show ?thesis
        by (auto simp: RotateLogFile_def Let_def ready_def split: prod.splits)
    next
      case (Inr h')
      with assms(2) \<open>logFile w = Some h\<close> f None obtain w3 where
        rep: "repoint (MultiWriter [Stdout, FileWriter h']) (snd ?opn\<lparr>logFile := Some h'\<rparr>) = Returned w3"
        and inf: "Info Sprintf (Some (''logger.go'', 249))
                    [StrArg ''Log file rotated to'',
                     StrArg (rotated_path (f_name f) (now ?w1))] w3 = Returned w1"
        by (auto simp: RotateLogFile_def Let_def split: prod.splits exec.splits)
      from ready_repoint [OF rep] have "ready w3" .
      with inf show ?thesis
        unfolding Info_def by (rule ready_log [rotated])
    qed
  qed
qed

lemma below_level_noop:
  "S < currentLevel w \<Longrightarrow> logWithCallerInfo Sprintf caller S format v w = Returned w"
  by (simp add: logWithCallerInfo_def)

text \<open>
  Claim C1, in the form that holds of the code. The severities are ordered
  Debug < Info < Warning < Error < Fatal. In every state, a call below the current level
  returns and leaves the whole state as it was. A successful \<open>InitLogger\<close> sets the level
  and leaves the five loggers in existence and writing to the console, and every later
  operation (\<open>CloseLogger\<close>, another \<open>InitLogger\<close> whether it succeeds or fails, a leveled
  call, \<open>RotateLogFile\<close>) keeps them so. In such a state a call to \<open>logWithCallerInfo\<close> at
  any severity \<open>S\<close>, and so each of the ten leveled operations at its own severity,
  writes to the console if and only if \<open>S\<close> is at or above the current level, whatever
  that level is; \<open>Fatal\<close> and \<open>Fatalf\<close> then exit with status 1.
\<close>

theorem threshold_gate:
  "(LevelDebug < LevelInfo \<and> LevelInfo < LevelWarning \<and> LevelWarning < LevelError
      \<and> LevelError < LevelFatal)
   \<and> (S < currentLevel w \<longrightarrow> logWithCallerInfo Sprintf caller S format v w = Returned w)
   \<and> (InitLogger level logToFile logFileName w0 = (None, w) \<longrightarrow>
        ready w \<and> currentLevel w = level)
   \<and> (ready w \<longrightarrow>
        gated w S (logWithCallerInfo Sprintf caller S format v w)
        \<and> gated w LevelDebug (Debug Sprintf caller v w)
        \<and> gated w LevelDebug (Debugf Sprintf caller format v w)
        \<and> gated w LevelInfo (Info Sprintf caller v w)
        \<and> gated w LevelInfo (Infof Sprintf caller format v w)
        \<and> gated w LevelWarning (Warning Sprintf caller v w)
        \<and> gated w LevelWarning (Warningf Sprintf caller format v w)
        \<and> gated w LevelError (Error Sprintf caller v w)
        \<and> gated w LevelError (Errorf Sprintf caller format v w)
        \<and> (\<exists>w'. Fatal Sprintf caller v w = Exited 1 w' \<and> gated w LevelFatal (Returned w'))
        \<and> (\<exists>w'. Fatalf Sprintf caller format v w = Exited 1 w'
              \<and> gated w LevelFatal (Returned w'))
        \<and> ready (CloseLogger w)
        \<and> ready (snd (InitLogger level logToFile logFileName w))
        \<and> (\<forall>w1. logWithCallerInfo Sprintf caller S format v w = Returned w1 \<longrightarrow> ready w1)
        \<and> (\<forall>e w1. RotateLogFile Sprintf w = Returned (e, w1) \<longrightarrow> ready w1))"
proof (intro conjI impI)
  assume r: "ready w"
  show "gated w S (logWithCallerInfo Sprintf caller S format v w)"
    "gated w LevelDebug (Debug Sprintf caller v w)"
    "gated w LevelDebug (Debugf Sprintf caller format v w)"
    "gated w LevelInfo (Info Sprintf caller v w)"
    "gated w LevelInfo (Infof Sprintf caller format v w)"
    "gated w LevelWarning (Warning Sprintf caller v w)"
    "gated w LevelWarning (Warningf Sprintf caller format v w)"
    "gated w LevelError (Error Sprintf caller v w)"
    "gated w LevelError (Errorf Sprintf caller format v w)"
    unfolding Debug_def Debugf_def Info_def Infof_def Warning_def Warningf_def Error_def
      Errorf_def
    by (rule gated_logWithCallerInfo [OF r])+
  show "\<exists>w'. Fatal Sprintf caller v w = Exited 1 w' \<and> gated w LevelFatal (Returned w')"
    "\<exists>w'. Fatalf Sprintf caller format v w = Exited 1 w' \<and> gated w LevelFatal (Returned w')"
    unfolding Fatal_def Fatalf_def
    by (rule gated_then_exit [OF gated_logWithCallerInfo [OF r]])+
  show "ready (CloseLogger w)" using r by (simp add: ready_CloseLogger)
  show "ready (snd (InitLogger level logToFile logFileName w))"
    using r by (rule ready_InitLogger)
  show "\<forall>w1. logWithCallerInfo Sprintf caller S format v w = Returned w1 \<longrightarrow> ready w1"
    using r ready_log by blast
  show "\<forall>e w1. RotateLogFile Sprintf w = Returned (e, w1) \<longrightarrow> ready w1"
    using r ready_RotateLogFile by blast
next
  assume "InitLogger level logToFile logFileName w0 = (None, w)"
  then show "ready w" "currentLevel w = level" using InitLogger_ready by blast+
next
  assume "S < currentLevel w"
  then show "logWithCallerInfo Sprintf caller S format v w = Returned w"
    by (rule below_level_noop)
qed (use level_order in simp_all)


theorem threshold_gate_witness:
  "InitLogger LevelWarning False [] (start demo_disk demo_clock) = (None, console_world)
   \<and> ready console_world
   \<and> currentLevel console_world = LevelWarning
   \<and> LevelInfo < currentLevel console_world
   \<and> Info no_verbs (Some (''/app/demo.go'', 20)) [StrArg ''y''] console_world
       = Returned console_world
   \<and> gated console_world LevelError
       (Error no_verbs (Some (''/app/demo.go'', 22)) [StrArg ''e''] console_world)
   \<and> Error no_verbs (Some (''/app/demo.go'', 22)) [StrArg ''e''] console_world
       = Returned (console_world
           \<lparr>stdout := [''[ERROR] 2023/03/08 15:30:45 logger.go:141: demo.go:22: e'' @ [newline]]\<rparr>)
   \<and> ready (CloseLogger console_world)"
proof -
  have i: "InitLogger LevelWarning False [] (start demo_disk demo_clock) = (None, console_world)"
    by (simp add: console_world_def InitLogger_def)
  from threshold_gate [where ?w0.0 = "start demo_disk demo_clock" and w = console_world
      and level = LevelWarning and logToFile = False and logFileName = "[]",
      THEN conjunct2, THEN conjunct2, THEN conjunct1] i
  have r: "ready console_world" and l: "currentLevel console_world = LevelWarning"
    by blast+
  have below: "LevelInfo < currentLevel console_world"
    by (simp add: l LevelInfo_def LevelWarning_def)
  from threshold_gate [where S = LevelInfo and w = console_world and Sprintf = no_verbs
      and caller = "Some (''/app/demo.go'', 20)" and format = "[]" and v = "[StrArg ''y'']",
      THEN conjunct2, THEN conjunct1] below
  have quiet: "Info no_verbs (Some (''/app/demo.go'', 20)) [StrArg ''y''] console_world
       = Returned console_world"
    by (simp add: Info_def)
  from threshold_gate [where w = console_world and Sprintf = no_verbs
      and caller = "Some (''/app/demo.go'', 22)" and v = "[StrArg ''e'']",
      THEN conjunct2, THEN conjunct2, THEN conjunct2] r
  have loud: "gated console_world LevelError
       (Error no_verbs (Some (''/app/demo.go'', 22)) [StrArg ''e''] console_world)"
    and closed: "ready (CloseLogger console_world)"
    by blast+
  have hdr: "formatHeader demo_clock ''[ERROR] '' {Ldate, Ltime, Lshortfile} ''logger.go'' 141
               = ''[ERROR] 2023/03/08 15:30:45 logger.go:141: ''"
    by code_simp
  have msg: "located (Base ''/app/demo.go'') 22 (Sprint [StrArg ''e'']) = ''demo.go:22: e''"
    by code_simp
  have line: "Error no_verbs (Some (''/app/demo.go'', 22)) [StrArg ''e''] console_world
       = Returned (console_world
           \<lparr>stdout := [''[ERROR] 2023/03/08 15:30:45 logger.go:141: demo.go:22: e'' @ [newline]]\<rparr>)"
    by (simp add: Error_def logWithCallerInfo_def console_world_eq install_def start_def
        getLogger_def logger_output_def hdr msg
        LevelDebug_def LevelInfo_def LevelWarning_def LevelError_def newline_def)
  from i r l below quiet loud line closed show ?thesis by blast
qed

text \<open>
  Before any successful \<open>InitLogger\<close> the loggers are nil: at process start, with the level
  \<open>LevelInfo\<close>, \<open>Info\<close> and \<open>Error\<close> panic and write nothing, and so does \<open>Warning\<close>
  after the failed \<open>InitLogger(LevelDebug, true, "logs/demo.log")\<close>.
\<close>

theorem uninitialised_call_counterexample:
  "currentLevel (start demo_disk demo_clock) = LevelInfo
   \<and> LevelInfo \<le> LevelInfo \<and> LevelInfo \<le> LevelError
   \<and> Info no_verbs (Some (''/app/demo.go'', 20)) [StrArg ''y''] (start demo_disk demo_clock)
       = Panicked
   \<and> Error no_verbs (Some (''/app/demo.go'', 22)) [StrArg ''e''] (start demo_disk demo_clock)
       = Panicked
   \<and> fst failed_init = Some (CreateLogsDirFailed EACCES)
   \<and> currentLevel (snd failed_init) = LevelDebug
   \<and> LevelDebug \<le> LevelWarning
   \<and> Warning no_verbs (Some (''/app/demo.go'', 21)) [StrArg ''z''] (snd failed_init)
       = Panicked"
  by (simp add: failed_init_eq start_def Info_def Error_def Warning_def logWithCallerInfo_def
      getLogger_def LevelDebug_def LevelInfo_def LevelWarning_def LevelError_def)

section \<open>Closing and rotating\<close>

text \<open>
  Claim C8. With no file handle (\<open>logFile\<close> is nil) \<open>RotateLogFile\<close> returns success and the
  whole state, file system and console included, is the one it started from.
\<close>

theorem rotate_without_file:
  "logFile w = None \<Longrightarrow> RotateLogFile Sprintf w = Returned (None, w)"
  by (simp add: RotateLogFile_def)

theorem rotate_without_file_witness:
  "logFile console_world = None
   \<and> RotateLogFile no_verbs console_world = Returned (None, console_world)"
proof -
  have h: "logFile console_world = None"
    by (simp add: console_world_eq install_def start_def)
  from rotate_without_file [OF h] h show ?thesis by simp
qed

text \<open>
  Claim C9. \<open>CloseLogger\<close> returns no error and cannot panic (it is a total function of the
  state). A second call changes nothing. With no handle it changes nothing; with a
  handle it marks that file object closed and changes nothing else, and the error of
  closing it a second time stays inside \<open>CloseLogger\<close>.
\<close>

theorem close_idempotent:
  "CloseLogger (CloseLogger w) = CloseLogger w
   \<and> (logFile w = None \<longrightarrow> CloseLogger w = w)
   \<and> (\<forall>h f. logFile w = Some h \<and> files w h = Some f \<longrightarrow>
         CloseLogger w = w\<lparr>files := (files w)(h \<mapsto> f\<lparr>f_closed := True\<rparr>)\<rparr>
         \<and> fst (file_Close h (CloseLogger w)) = Some EBADF)"
  by (auto simp: CloseLogger_def file_Close_def fun_upd_idem split: option.splits)

theorem close_idempotent_witness:
  "logFile file_world = Some 0
   \<and> files file_world 0 = Some \<lparr>f_name = ''logs/demo.log'', f_inode = 0, f_closed = False\<rparr>
   \<and> files (CloseLogger file_world) 0
       = Some \<lparr>f_name = ''logs/demo.log'', f_inode = 0, f_closed = True\<rparr>
   \<and> CloseLogger (CloseLogger file_world) = CloseLogger file_world
   \<and> fst (file_Close 0 (CloseLogger file_world)) = Some EBADF"
proof -
  have h: "logFile file_world = Some 0"
    "files file_world 0 = Some \<lparr>f_name = ''logs/demo.log'', f_inode = 0, f_closed = False\<rparr>"
    by (simp_all add: file_world_eq install_def start_def)
  from close_idempotent [of file_world] h
  have c: "CloseLogger (CloseLogger file_world) = CloseLogger file_world"
    "CloseLogger file_world
       = file_world\<lparr>files := (files file_world)
           (0 \<mapsto> \<lparr>f_name = ''logs/demo.log'', f_inode = 0, f_closed = False\<rparr>
                    \<lparr>f_closed := True\<rparr>)\<rparr>"
    "fst (file_Close 0 (CloseLogger file_world)) = Some EBADF"
    by blast+
  have "files (CloseLogger file_world) 0
          = Some \<lparr>f_name = ''logs/demo.log'', f_inode = 0, f_closed = True\<rparr>"
    by (subst c(2)) simp
  with h c(1) c(3) show ?thesis by blast
qed

subsection \<open>Steps of a rotation\<close>

lemma file_Close_eq:
  "files w h = Some f \<Longrightarrow>
     snd (file_Close h w) = w\<lparr>files := (files w)(h \<mapsto> f\<lparr>f_closed := True\<rparr>)\<rparr>"
  by (cases "f_closed f") (auto simp: file_Close_def fun_upd_idem)

lemma Rename_success:
  "Rename a b d = (None, d') \<Longrightarrow>
     \<exists>i. fs_files d a = Some i \<and> d' = d\<lparr>fs_files := ((fs_files d)(a := None))(b \<mapsto> i)\<rparr>"
  by (auto simp: Rename_def split: if_splits option.splits)

lemma sys_open_absent:
  "sys_open p mode d = (Inr i, d') \<Longrightarrow> fs_files d p = None \<Longrightarrow>
     i = fs_fresh d
     \<and> d' = d\<lparr>fs_files := (fs_files d)(p \<mapsto> fs_fresh d),
              fs_data := (fs_data d)(fs_fresh d \<mapsto> []),
              fs_fresh := Suc (fs_fresh d)\<rparr>"
  by (auto simp: sys_open_def split: if_splits)

lemma OpenFile_success:
  "OpenFile p mode w = (Inr h', w2) \<Longrightarrow>
     \<exists>i d. sys_open p mode (disk w) = (Inr i, d) \<and> h' = next_file w
       \<and> w2 = w\<lparr>disk := d,
                 files := (files w)(next_file w \<mapsto> \<lparr>f_name = p, f_inode = i, f_closed = False\<rparr>),
                 next_file := Suc (next_file w)\<rparr>"
  by (auto simp: OpenFile_def split: prod.splits sum.splits)

lemma repoint_success:
  "repoint out w = Returned w3 \<Longrightarrow>
     \<exists>d i wa e f.
        debugLogger w = Some d \<and> infoLogger w = Some i \<and> warningLogger w = Some wa
        \<and> errorLogger w = Some e \<and> fatalLogger w = Some f
        \<and> w3 = w\<lparr>debugLogger := Some (d\<lparr>l_out := out\<rparr>),
                  infoLogger := Some (i\<lparr>l_out := out\<rparr>),
                  warningLogger := Some (wa\<lparr>l_out := out\<rparr>),
                  errorLogger := Some (e\<lparr>l_out := out\<rparr>),
                  fatalLogger := Some (f\<lparr>l_out := out\<rparr>),
                  std := (std w)\<lparr>l_out := out\<rparr>\<rparr>"
  by (auto simp: repoint_def split: option.splits)

text \<open>A call through a logger on the console and an open file: one line to both, or nothing.\<close>

lemma log_to_open_file:
  assumes "getLogger level w = Some l" and "l_out l = MultiWriter [Stdout, FileWriter h]"
    and "files w h = Some f" and "\<not> f_closed f"
  shows "\<exists>ls. (ls = [] \<longleftrightarrow> level < currentLevel w) \<and> length ls \<le> 1
           \<and> logWithCallerInfo S c level fmt v w
               = Returned (w\<lparr>stdout := stdout w @ ls,
                             disk := foldl (\<lambda>d p. append_data (f_inode f) p d) (disk w) ls\<rparr>)"
proof (cases "level < currentLevel w")
  case True
  then show ?thesis
    by (intro exI [of _ "[]"]) (simp add: logWithCallerInfo_def)
next
  case False
  have out: "\<exists>p. logger_output l fl ln s w
      = w\<lparr>stdout := stdout w @ [p], disk := append_data (f_inode f) p (disk w)\<rparr>"
    for fl ln s
  proof -
    let ?p = "formatHeader (now w) (l_prefix l) (l_flags l) fl ln @ s
                @ (if s = [] \<or> last s \<noteq> newline then [newline] else [])"
    have "logger_output l fl ln s w = snd (Write (MultiWriter [Stdout, FileWriter h]) ?p w)"
      by (simp only: logger_output_def assms(2))
    also have "\<dots> = w\<lparr>stdout := stdout w @ [?p], disk := append_data (f_inode f) ?p (disk w)\<rparr>"
      using assms(3,4) by simp
    finally show ?thesis by (rule exI [of _ ?p])
  qed
  have "\<exists>p. logWithCallerInfo S c level fmt v w
           = Returned (w\<lparr>stdout := stdout w @ [p], disk := append_data (f_inode f) p (disk w)\<rparr>)"
    using False assms(1) out
    by (auto simp: logWithCallerInfo_def split: option.splits)
  then obtain p where "logWithCallerInfo S c level fmt v w
           = Returned (w\<lparr>stdout := stdout w @ [p], disk := append_data (f_inode f) p (disk w)\<rparr>)"
    by blast
  with False show ?thesis
    by (intro exI [of _ "[p]"]) simp
qed


lemma wired_getLogger:
  "wired out w \<Longrightarrow> \<exists>l. getLogger level w = Some l \<and> l_out l = out"
  by (auto simp: wired_def getLogger_def)

lemma wired_frame [simp]:
  "wired out (w\<lparr>stdout := s, disk := d\<rparr>) = wired out w"
  by (simp add: wired_def)

lemma log_to_open_file_observed:
  assumes "getLogger level w = Some l" and "l_out l = MultiWriter [Stdout, FileWriter h]"
    and "files w h = Some f" and "\<not> f_closed f"
    and "fs_data (disk w) (f_inode f) = Some dat"
  shows "\<exists>ls d'. logWithCallerInfo S c level fmt v w = Returned (w\<lparr>stdout := stdout w @ ls, disk := d'\<rparr>)
           \<and> (ls = [] \<longleftrightarrow> level < currentLevel w)
           \<and> fs_files d' = fs_files (disk w)
           \<and> fs_fresh d' = fs_fresh (disk w)
           \<and> fs_data d' (f_inode f) = Some (dat @ ls)
           \<and> (\<forall>k. k \<noteq> f_inode f \<longrightarrow> fs_data d' k = fs_data (disk w) k)"
proof -
  from log_to_open_file [OF assms(1-4), of S c fmt v] obtain ls where
    ls: "ls = [] \<longleftrightarrow> level < currentLevel w" "length ls \<le> 1"
      "logWithCallerInfo S c level fmt v w
         = Returned (w\<lparr>stdout := stdout w @ ls,
                       disk := foldl (\<lambda>d p. append_data (f_inode f) p d) (disk w) ls\<rparr>)"
    by blast
  from ls(2) consider "ls = []" | p where "ls = [p]"
    by (cases ls) auto
  then show ?thesis
  proof cases
    case 1
    with ls(1,3) assms(5) show ?thesis
      by (intro exI [of _ "[]"] exI [of _ "disk w"]) simp
  next
    case 2
    with ls(1,3) assms(5) show ?thesis
      by (intro exI [of _ "[p]"] exI [of _ "append_data (f_inode f) p (disk w)"])
        (simp add: append_data_def)
  qed
qed


text \<open>
  Directory entries name inodes already handed out: this holds of an empty file system and
  every operation keeps it.
\<close>

lemma mkdirs_frame:
  "fs_files (snd (mkdirs as d)) = fs_files d \<and> fs_data (snd (mkdirs as d)) = fs_data d
   \<and> fs_denied (snd (mkdirs as d)) = fs_denied d \<and> fs_fresh (snd (mkdirs as d)) = fs_fresh d
   \<and> fs_dirs d \<subseteq> fs_dirs (snd (mkdirs as d))"
  by (induction as d rule: mkdirs.induct) auto

lemma MkdirAll_frame:
  "fs_files (snd (MkdirAll p d)) = fs_files d \<and> fs_data (snd (MkdirAll p d)) = fs_data d
   \<and> fs_denied (snd (MkdirAll p d)) = fs_denied d \<and> fs_fresh (snd (MkdirAll p d)) = fs_fresh d
   \<and> fs_dirs d \<subseteq> fs_dirs (snd (MkdirAll p d))"
  using mkdirs_frame [of "ancestors p" d] by (simp add: MkdirAll_def)

lemma sound_disk_MkdirAll: "sound_disk d \<Longrightarrow> sound_disk (snd (MkdirAll p d))"
  using MkdirAll_frame [of p d] by (simp add: sound_disk_def)

lemma sound_disk_sys_open: "sound_disk d \<Longrightarrow> sound_disk (snd (sys_open p mode d))"
  by (auto simp: sys_open_def sound_disk_def less_Suc_eq split: option.splits)

lemma sound_disk_Rename: "sound_disk d \<Longrightarrow> sound_disk (snd (Rename a b d))"
  by (auto simp: Rename_def sound_disk_def split: option.splits if_splits)

lemma Write_keeps_entries:
  "fs_files (disk (snd (Write x p w))) = fs_files (disk w)
   \<and> fs_fresh (disk (snd (Write x p w))) = fs_fresh (disk w)"
  "fs_files (disk (snd (Write_each xs p w))) = fs_files (disk w)
   \<and> fs_fresh (disk (snd (Write_each xs p w))) = fs_fresh (disk w)"
proof (induction x p w and xs p w rule: Write_Write_each.induct)
  case (6 x xs p w)
  then show ?case
    by (cases "Write x p w") (auto split: option.splits)
qed (auto simp: append_data_def split: option.splits)

lemma sound_disk_Write: "sound_disk (disk w) \<Longrightarrow> sound_disk (disk (snd (Write x p w)))"
  using Write_keeps_entries(1) [of x p w] by (simp add: sound_disk_def)

lemma sound_disk_log:
  "sound_disk (disk w) \<Longrightarrow> logWithCallerInfo S c level fmt v w = Returned w' \<Longrightarrow>
     sound_disk (disk w')"
  by (auto simp: logWithCallerInfo_def logger_output_def sound_disk_Write
      split: if_splits option.splits prod.splits)

lemma sound_disk_InitLogger:
  "sound_disk (disk w) \<Longrightarrow> sound_disk (disk (snd (InitLogger level logToFile logFileName w)))"
proof -
  assume s: "sound_disk (disk w)"
  have "sound_disk (snd (sys_open logFileName AppendCreate (snd (MkdirAll (Dir logFileName) (disk w)))))"
    "sound_disk (snd (sys_open logFileName AppendCreate (disk w)))"
    "sound_disk (snd (MkdirAll (Dir logFileName) (disk w)))"
    using s by (simp_all add: sound_disk_sys_open sound_disk_MkdirAll)
  then show ?thesis
    using s
    by (auto simp: InitLogger_def Let_def install_def OpenFile_def
        split: option.splits prod.splits sum.splits)
qed


lemma file_Close_disk: "disk (snd (file_Close h w)) = disk w"
  by (simp add: file_Close_def split: option.splits)

lemma sound_disk_OpenFile:
  "sound_disk (disk w) \<Longrightarrow> sound_disk (disk (snd (OpenFile p mode w)))"
  using sound_disk_sys_open [of "disk w" p mode]
  by (auto simp: OpenFile_def split: prod.splits sum.splits)

lemma repoint_disk: "repoint out w = Returned w' \<Longrightarrow> disk w' = disk w"
  by (auto simp: repoint_def split: option.splits)

lemma sound_disk_RotateLogFile:
  assumes "sound_disk (disk w)" and "RotateLogFile S w = Returned (e, w')"
  shows "sound_disk (disk w')"
proof (cases "logFile w")
  case None
  with assms show ?thesis by (simp add: RotateLogFile_def)
next
  case (Some h)
  with assms(2) obtain f where f: "files w h = Some f"
    by (auto simp: RotateLogFile_def split: option.splits)
  let ?w1 = "snd (file_Close h w)"
  let ?ren = "Rename (f_name f) (rotated_path (f_name f) (now ?w1)) (disk ?w1)"
  have s1: "sound_disk (snd ?ren)"
    using assms(1) by (simp add: sound_disk_Rename file_Close_disk)
  show ?thesis
  proof (cases "fst ?ren")
    case (Some c)
    with assms(2) \<open>logFile w = Some h\<close> f s1 show ?thesis
      by (auto simp: RotateLogFile_def Let_def split: prod.splits)
  next
    case None
    let ?opn = "OpenFile (f_name f) CreateTrunc (?w1\<lparr>disk := snd ?ren\<rparr>)"
    have s2: "sound_disk (disk (snd ?opn))"
      using s1 by (intro sound_disk_OpenFile) simp
    show ?thesis
    proof (cases "fst ?opn")
      case (Inl c)
      with assms(2) \<open>logFile w = Some h\<close> f None s2 show ?thesis
        by (auto simp: RotateLogFile_def Let_def split: prod.splits)
    next
      case (Inr h')
      with assms(2) \<open>logFile w = Some h\<close> f None obtain w3 where
        rep: "repoint (MultiWriter [Stdout, FileWriter h']) (snd ?opn\<lparr>logFile := Some h'\<rparr>) = Returned w3"
        and inf: "Info S (Some (''logger.go'', 249))
                    [StrArg ''Log file rotated to'',
                     StrArg (rotated_path (f_name f) (now ?w1))] w3 = Returned w'"
        by (auto simp: RotateLogFile_def Let_def split: prod.splits exec.splits)
      from repoint_disk [OF rep] s2 have "sound_disk (disk w3)" by simp
      with inf show ?thesis
        unfolding Info_def by (rule sound_disk_log [rotated])
    qed
  qed
qed

lemma Rename_failure_keeps: "Rename a b d = (Some e, d') \<Longrightarrow> d' = d"
  by (auto simp: Rename_def split: if_splits option.splits)

text \<open>
  Claim C6. When the rename of \<open>RotateLogFile\<close> fails, the call returns the rename error
  and the state differs from the one before the call in one thing only: the file object
  \<open>logFile\<close> points to is closed. \<open>logFile\<close> still points to it, the file system is
  untouched (no file appears at the original path), the loggers keep their writers, and a
  later write to that handle fails and changes nothing.
\<close>

theorem rotate_rename_failure:
  assumes "logFile w = Some h" and "files w h = Some f"
    and "fst (Rename (f_name f) (rotated_path (f_name f) (now w)) (disk w)) = Some e"
  shows "RotateLogFile Sprintf w
           = Returned (Some (RenameLogFileFailed e),
                       w\<lparr>files := (files w)(h \<mapsto> f\<lparr>f_closed := True\<rparr>)\<rparr>)
       \<and> Write (FileWriter h) p (w\<lparr>files := (files w)(h \<mapsto> f\<lparr>f_closed := True\<rparr>)\<rparr>)
           = (Some EBADF, w\<lparr>files := (files w)(h \<mapsto> f\<lparr>f_closed := True\<rparr>)\<rparr>)"
proof -
  let ?w1 = "w\<lparr>files := (files w)(h \<mapsto> f\<lparr>f_closed := True\<rparr>)\<rparr>"
  have close: "snd (file_Close h w) = ?w1" by (rule file_Close_eq [OF assms(2)])
  obtain d where ren: "Rename (f_name f) (rotated_path (f_name f) (now w)) (disk w) = (Some e, d)"
    using assms(3) by (cases "Rename (f_name f) (rotated_path (f_name f) (now w)) (disk w)") auto
  then have d: "d = disk w" by (rule Rename_failure_keeps)
  have "RotateLogFile Sprintf w = Returned (Some (RenameLogFileFailed e), ?w1)"
    using assms(1,2) by (simp add: RotateLogFile_def close ren [unfolded d] Let_def)
  then show ?thesis by simp
qed

lemma rotated_demo:
  "rotated_path ''logs/demo.log'' demo_clock = ''logs/demo-20230308-153045.log''"
  by code_simp

theorem rotate_rename_failure_witness:
  "logFile denied_file_world = Some 0
   \<and> files denied_file_world 0
       = Some \<lparr>f_name = ''logs/demo.log'', f_inode = 0, f_closed = False\<rparr>
   \<and> fst (Rename ''logs/demo.log'' ''logs/demo-20230308-153045.log'' (disk denied_file_world))
       = Some EACCES
   \<and> RotateLogFile no_verbs denied_file_world
       = Returned (Some (RenameLogFileFailed EACCES),
           denied_file_world\<lparr>files := (files denied_file_world)
             (0 \<mapsto> \<lparr>f_name = ''logs/demo.log'', f_inode = 0, f_closed = True\<rparr>)\<rparr>)"
proof -
  have h: "logFile denied_file_world = Some 0"
    "files denied_file_world 0
       = Some \<lparr>f_name = ''logs/demo.log'', f_inode = 0, f_closed = False\<rparr>"
    by (simp_all add: denied_file_world_def file_world_eq install_def start_def)
  have n: "now denied_file_world = demo_clock"
    by (simp add: denied_file_world_def file_world_eq install_def start_def)
  have r: "fst (Rename ''logs/demo.log'' ''logs/demo-20230308-153045.log''
                 (disk denied_file_world)) = Some EACCES"
    by (simp add: denied_file_world_def Rename_def)
  from rotate_rename_failure [OF h(1) h(2), of EACCES no_verbs] r h
  show ?thesis by (simp add: n rotated_demo)
qed

text \<open>
  Claim C5. Let \<open>RotateLogFile\<close> succeed from a state with a file handle, on a file system
  whose directory entries name inodes already handed out (the invariant above). The
  handle may be open or closed. The name of the handle is
  \<open>dir @ base @ ext\<close>, with \<open>dir\<close> up to the last separator and \<open>ext\<close> the extension, and
  the file is renamed to \<open>Join [dir, base @ "-" @ stamp @ ext]\<close>, whose last element is
  \<open>base-stamp ext\<close> with the stamp in the layout \<open>20060102-150405\<close> (digits and one
  hyphen, and for a calendar reading fifteen characters with the hyphen ninth); for
  \<open>logs/demo.log\<close> at 2023-03-08 15:30:45 that is \<open>logs/demo-20230308-153045.log\<close>. The
  archive path then holds the data the original path held. \<open>logFile\<close> is a new open file
  object of the original name, the original path names its inode, and that file holds
  only what was written since (the rotation message, when level Info is enabled), the
  same lines the console received. Every later leveled call adds its line to the
  console and to the file at the original path, and leaves the archive as it was.
\<close>

theorem rotate_archives_and_reopens:
  assumes ok: "RotateLogFile Sprintf w = Returned (None, w')"
    and lf: "logFile w = Some h" and fo: "files w h = Some f"
    and sd: "sound_disk (disk w)"
  shows "(\<exists>dir base ext.
            f_name f = dir @ base @ ext \<and> slash \<notin> set (base @ ext) \<and> Ext (f_name f) = ext
            \<and> rotated_path (f_name f) (now w)
                = Join [dir, base @ ''-'' @ rotation_stamp (now w) @ ext]
            \<and> after_last_slash (rotated_path (f_name f) (now w))
                = base @ ''-'' @ rotation_stamp (now w) @ ext)
       \<and> set (rotation_stamp (now w)) \<subseteq> set ''0123456789-''
       \<and> (calendar (now w) \<longrightarrow>
            length (rotation_stamp (now w)) = 15 \<and> rotation_stamp (now w) ! 8 = CHR ''-'')
       \<and> rotated_path ''logs/demo.log'' demo_clock = ''logs/demo-20230308-153045.log''
       \<and> file_data w' (rotated_path (f_name f) (now w)) = file_data w (f_name f)
       \<and> (\<exists>h' f' written.
            logFile w' = Some h' \<and> files w' h' = Some f' \<and> f_name f' = f_name f
            \<and> \<not> f_closed f' \<and> fs_files (disk w') (f_name f) = Some (f_inode f')
            \<and> file_data w' (f_name f) = Some written \<and> stdout w' = stdout w @ written
            \<and> (written = [] \<longleftrightarrow> LevelInfo < currentLevel w)
            \<and> (\<forall>S caller level format v. \<exists>w'' ls.
                  logWithCallerInfo S caller level format v w' = Returned w''
                  \<and> (ls = [] \<longleftrightarrow> level < currentLevel w')
                  \<and> stdout w'' = stdout w' @ ls
                  \<and> file_data w'' (f_name f) = Some (written @ ls)
                  \<and> file_data w'' (rotated_path (f_name f) (now w)) = file_data w (f_name f)))"
proof -
  let ?name = "f_name f" and ?arch = "rotated_path (f_name f) (now w)"
  let ?w1 = "w\<lparr>files := (files w)(h \<mapsto> f\<lparr>f_closed := True\<rparr>)\<rparr>"
  have close: "snd (file_Close h w) = ?w1" by (rule file_Close_eq [OF fo])
  from ok lf fo obtain d h' w2 w3 where
    ren: "Rename ?name ?arch (disk w) = (None, d)"
    and opn: "OpenFile ?name CreateTrunc (?w1\<lparr>disk := d\<rparr>) = (Inr h', w2)"
    and rep: "repoint (MultiWriter [Stdout, FileWriter h']) (w2\<lparr>logFile := Some h'\<rparr>) = Returned w3"
    and inf: "Info Sprintf (Some (''logger.go'', 249))
                [StrArg ''Log file rotated to'', StrArg ?arch] w3 = Returned w'"
    by (auto simp: RotateLogFile_def close Let_def
        split: option.splits prod.splits sum.splits exec.splits)
  from Rename_success [OF ren] obtain j where
    j: "fs_files (disk w) ?name = Some j"
    and d: "d = (disk w)\<lparr>fs_files := ((fs_files (disk w))(?name := None))(?arch \<mapsto> j)\<rparr>"
    by blast
  have jf: "j \<noteq> fs_fresh (disk w)" using sd j by (auto simp: sound_disk_def)
  have ne: "?arch \<noteq> ?name" by (rule rotated_path_differs)
  from OpenFile_success [OF opn] obtain i d2 where
    so: "sys_open ?name CreateTrunc d = (Inr i, d2)" and h': "h' = next_file w"
    and w2: "w2 = ?w1\<lparr>disk := d2,
                  files := (files ?w1)(next_file w \<mapsto> \<lparr>f_name = ?name, f_inode = i, f_closed = False\<rparr>),
                  next_file := Suc (next_file w)\<rparr>"
    by auto
  have "fs_files d ?name = None" using d ne by simp
  from sys_open_absent [OF so this]
  have i: "i = fs_fresh (disk w)"
    and d2: "d2 = d\<lparr>fs_files := (fs_files d)(?name \<mapsto> fs_fresh (disk w)),
                    fs_data := (fs_data d)(fs_fresh (disk w) \<mapsto> []),
                    fs_fresh := Suc (fs_fresh (disk w))\<rparr>"
    by (simp_all add: d)
  from repoint_success [OF rep] obtain ld li lw le lf' where
    w3: "w3 = (w2\<lparr>logFile := Some h'\<rparr>)
           \<lparr>debugLogger := Some (ld\<lparr>l_out := MultiWriter [Stdout, FileWriter h']\<rparr>),
            infoLogger := Some (li\<lparr>l_out := MultiWriter [Stdout, FileWriter h']\<rparr>),
            warningLogger := Some (lw\<lparr>l_out := MultiWriter [Stdout, FileWriter h']\<rparr>),
            errorLogger := Some (le\<lparr>l_out := MultiWriter [Stdout, FileWriter h']\<rparr>),
            fatalLogger := Some (lf'\<lparr>l_out := MultiWriter [Stdout, FileWriter h']\<rparr>),
            std := (std (w2\<lparr>logFile := Some h'\<rparr>))\<lparr>l_out := MultiWriter [Stdout, FileWriter h']\<rparr>\<rparr>"
    by blast
  let ?f' = "\<lparr>f_name = ?name, f_inode = fs_fresh (disk w), f_closed = False\<rparr>"
  have loggers3: "wired (MultiWriter [Stdout, FileWriter h']) w3"
    by (simp add: w3 wired_def)
  have files3: "files w3 h' = Some ?f'" by (simp add: w3 w2 h' i)
  have data3: "fs_data (disk w3) (f_inode ?f') = Some []" by (simp add: w3 w2 d2)
  from wired_getLogger [OF loggers3, of LevelInfo] obtain l where
    l: "getLogger LevelInfo w3 = Some l" "l_out l = MultiWriter [Stdout, FileWriter h']" by blast
  from log_to_open_file_observed [OF l files3 _ data3, of Sprintf "Some (''logger.go'', 249)"
      "[]" "[StrArg ''Log file rotated to'', StrArg ?arch]"] inf
  obtain written d' where
    w': "w' = w3\<lparr>stdout := stdout w3 @ written, disk := d'\<rparr>"
    and written: "written = [] \<longleftrightarrow> LevelInfo < currentLevel w3"
    and d': "fs_files d' = fs_files (disk w3)" "fs_data d' (fs_fresh (disk w)) = Some written"
      "\<forall>k. k \<noteq> fs_fresh (disk w) \<longrightarrow> fs_data d' k = fs_data (disk w3) k"
    by (auto simp: Info_def)
  have loggers': "wired (MultiWriter [Stdout, FileWriter h']) w'"
    using loggers3 by (simp add: w')
  have files': "files w' h' = Some ?f'" using files3 by (simp add: w')
  have data': "fs_data (disk w') (f_inode ?f') = Some written" using d'(2) by (simp add: w')
  have entries': "fs_files (disk w') = ((fs_files (disk w))(?name := None))(?arch \<mapsto> j, ?name \<mapsto> fs_fresh (disk w))"
    by (simp add: w' d'(1) w3 w2 d2 d)
  have old': "fs_data (disk w') j = fs_data (disk w) j"
    using d'(3) jf by (simp add: w' w3 w2 d2 d)
  have archived: "file_data w' ?arch = file_data w ?name"
    using ne by (simp add: file_data_def entries' old' j)
  have later: "\<exists>w'' ls.
      logWithCallerInfo S caller level format v w' = Returned w''
      \<and> (ls = [] \<longleftrightarrow> level < currentLevel w')
      \<and> stdout w'' = stdout w' @ ls
      \<and> file_data w'' ?name = Some (written @ ls)
      \<and> file_data w'' ?arch = file_data w ?name"
    for S caller level format v
  proof -
    from wired_getLogger [OF loggers', of level] obtain l' where
      l': "getLogger level w' = Some l'" "l_out l' = MultiWriter [Stdout, FileWriter h']" by blast
    from log_to_open_file_observed [OF l' files' _ data', of S caller format v]
    obtain ls d'' where
      r: "logWithCallerInfo S caller level format v w'
            = Returned (w'\<lparr>stdout := stdout w' @ ls, disk := d''\<rparr>)"
      and ls: "ls = [] \<longleftrightarrow> level < currentLevel w'"
      and d'': "fs_files d'' = fs_files (disk w')" "fs_data d'' (fs_fresh (disk w)) = Some (written @ ls)"
        "\<forall>k. k \<noteq> fs_fresh (disk w) \<longrightarrow> fs_data d'' k = fs_data (disk w') k"
      by auto
    show ?thesis
      using r ls d'' ne jf old'
      by (intro exI [of _ "w'\<lparr>stdout := stdout w' @ ls, disk := d''\<rparr>"] exI [of _ ls])
        (simp add: file_data_def entries' j)
  qed
  have shape: "\<exists>dir base ext.
            f_name f = dir @ base @ ext \<and> slash \<notin> set (base @ ext) \<and> Ext (f_name f) = ext
            \<and> ?arch = Join [dir, base @ ''-'' @ rotation_stamp (now w) @ ext]
            \<and> after_last_slash ?arch = base @ ''-'' @ rotation_stamp (now w) @ ext"
  proof -
    from rotated_path_shape [of ?name "now w"] obtain dir base ext y where
      s: "?name = dir @ base @ ext" "slash \<notin> set (base @ ext)" "Ext ?name = ext"
        "?arch = Join [dir, base @ ''-'' @ rotation_stamp (now w) @ ext]"
        "?arch = y @ base @ ''-'' @ rotation_stamp (now w) @ ext" "y = [] \<or> last y = slash"
      by blast
    have "slash \<notin> set (base @ ''-'' @ rotation_stamp (now w) @ ext)"
      using s(2) rotation_stamp_no_slash [of "now w"] by (auto simp: slash_def)
    from after_last_slash_shape [OF this s(6)] s(5)
    have "after_last_slash ?arch = base @ ''-'' @ rotation_stamp (now w) @ ext" by simp
    with s(1-4) show ?thesis by blast
  qed
  have example: "rotated_path ''logs/demo.log'' demo_clock = ''logs/demo-20230308-153045.log''"
    by code_simp
  have new: "logFile w' = Some h' \<and> files w' h' = Some ?f' \<and> f_name ?f' = ?name
      \<and> \<not> f_closed ?f' \<and> fs_files (disk w') ?name = Some (f_inode ?f')
      \<and> file_data w' ?name = Some written \<and> stdout w' = stdout w @ written
      \<and> (written = [] \<longleftrightarrow> LevelInfo < currentLevel w)"
    using files' data' written
    by (simp add: file_data_def entries') (simp add: w' w3 w2)
  from new later have handle: "\<exists>h' f' written.
            logFile w' = Some h' \<and> files w' h' = Some f' \<and> f_name f' = f_name f
            \<and> \<not> f_closed f' \<and> fs_files (disk w') (f_name f) = Some (f_inode f')
            \<and> file_data w' (f_name f) = Some written \<and> stdout w' = stdout w @ written
            \<and> (written = [] \<longleftrightarrow> LevelInfo < currentLevel w)
            \<and> (\<forall>S caller level format v. \<exists>w'' ls.
                  logWithCallerInfo S caller level format v w' = Returned w''
                  \<and> (ls = [] \<longleftrightarrow> level < currentLevel w')
                  \<and> stdout w'' = stdout w' @ ls
                  \<and> file_data w'' (f_name f) = Some (written @ ls)
                  \<and> file_data w'' (rotated_path (f_name f) (now w)) = file_data w (f_name f))"
    by (intro exI [of _ h'] exI [of _ ?f'] exI [of _ written]) blast
  have stamp: "set (rotation_stamp (now w)) \<subseteq> set ''0123456789-''
       \<and> (calendar (now w) \<longrightarrow>
            length (rotation_stamp (now w)) = 15 \<and> rotation_stamp (now w) ! 8 = CHR ''-'')"
    using rotation_stamp_chars [of "now w"] rotation_stamp_layout [of "now w"] by blast
  from shape stamp example archived handle show ?thesis by blast
qed

theorem rotate_archives_and_reopens_witness:
  "RotateLogFile no_verbs used_file_world = Returned (None, rotated_world)
   \<and> logFile used_file_world = Some 0
   \<and> files used_file_world 0
       = Some \<lparr>f_name = ''logs/demo.log'', f_inode = 0, f_closed = False\<rparr>
   \<and> sound_disk (disk used_file_world)
   \<and> calendar (now used_file_world)
   \<and> rotation_stamp (now used_file_world) = ''20230308-153045''
   \<and> file_data used_file_world ''logs/demo.log''
       = Some [''[DEBUG] 2023/03/08 15:30:45 logger.go:141: demo.go:19: x'' @ [newline]]
   \<and> file_data rotated_world ''logs/demo-20230308-153045.log''
       = Some [''[DEBUG] 2023/03/08 15:30:45 logger.go:141: demo.go:19: x'' @ [newline]]
   \<and> file_data rotated_world ''logs/demo.log''
       = Some [''[INFO] 2023/03/08 15:30:45 logger.go:141: logger.go:249: Log file rotated tologs/demo-20230308-153045.log'' @ [newline]]"
proof -
  have e: "map_option fst (returned (RotateLogFile no_verbs used_file_world)) = Some None"
    by code_simp
  have h1: "RotateLogFile no_verbs used_file_world = Returned (None, rotated_world)"
    using e unfolding rotated_world_def
    by (cases "RotateLogFile no_verbs used_file_world") (auto simp: returned_def)
  have h2: "logFile used_file_world = Some 0" by code_simp
  have h3: "files used_file_world 0
              = Some \<lparr>f_name = ''logs/demo.log'', f_inode = 0, f_closed = False\<rparr>"
    by code_simp
  have entries: "fs_files (disk used_file_world) = [''logs/demo.log'' \<mapsto> 0]"
    by (simp add: used_file_world_def file_world_eq Debug_def logWithCallerInfo_def
        install_def start_def LevelDebug_def getLogger_def logger_output_def append_data_def
        demo_disk_def)
  have "fs_fresh (disk used_file_world) = 1" by code_simp
  with entries have h4: "sound_disk (disk used_file_world)"
    by (simp add: sound_disk_def)
  have n: "now used_file_world = demo_clock" by code_simp
  have before: "file_data used_file_world ''logs/demo.log''
       = Some [''[DEBUG] 2023/03/08 15:30:45 logger.go:141: demo.go:19: x'' @ [newline]]"
    by code_simp
  from rotate_archives_and_reopens [OF h1 h2 h3 h4]
  have "file_data rotated_world (rotated_path ''logs/demo.log'' (now used_file_world))
          = file_data used_file_world ''logs/demo.log''"
    by simp
  then have arch: "file_data rotated_world ''logs/demo-20230308-153045.log''
       = Some [''[DEBUG] 2023/03/08 15:30:45 logger.go:141: demo.go:19: x'' @ [newline]]"
    by (simp add: n rotated_demo before)
  have c: "calendar (now used_file_world)"
    by (simp add: n calendar_def demo_clock_def)
  have st: "rotation_stamp (now used_file_world) = ''20230308-153045''"
    unfolding n by code_simp
  have fresh: "file_data rotated_world ''logs/demo.log''
       = Some [''[INFO] 2023/03/08 15:30:45 logger.go:141: logger.go:249: Log file rotated tologs/demo-20230308-153045.log'' @ [newline]]"
    by code_simp
  from h1 h2 h3 h4 c st before arch fresh show ?thesis by blast
qed

subsection \<open>The life of the file handle\<close>

lemma log_to_closed_file:
  assumes "wired (MultiWriter [Stdout, FileWriter h]) w"
    and "files w h = Some f" and "f_closed f"
  shows "\<exists>ls. (ls = [] \<longleftrightarrow> level < currentLevel w) \<and> length ls \<le> 1
           \<and> logWithCallerInfo S c level fmt v w = Returned (w\<lparr>stdout := stdout w @ ls\<rparr>)"
proof (cases "level < currentLevel w")
  case True
  then show ?thesis
    by (intro exI [of _ "[]"]) (simp add: logWithCallerInfo_def)
next
  case False
  from wired_getLogger [OF assms(1), of level] obtain l where
    l: "getLogger level w = Some l" "l_out l = MultiWriter [Stdout, FileWriter h]" by blast
  have out: "\<exists>p. logger_output l fl ln s w = w\<lparr>stdout := stdout w @ [p]\<rparr>" for fl ln s
  proof -
    let ?p = "formatHeader (now w) (l_prefix l) (l_flags l) fl ln @ s
                @ (if s = [] \<or> last s \<noteq> newline then [newline] else [])"
    have "logger_output l fl ln s w = snd (Write (MultiWriter [Stdout, FileWriter h]) ?p w)"
      by (simp only: logger_output_def l(2))
    also have "\<dots> = w\<lparr>stdout := stdout w @ [?p]\<rparr>"
      using assms(2,3) by simp
    finally show ?thesis by (rule exI [of _ ?p])
  qed
  have "\<exists>p. logWithCallerInfo S c level fmt v w = Returned (w\<lparr>stdout := stdout w @ [p]\<rparr>)"
    using False l(1) out
    by (auto simp: logWithCallerInfo_def split: option.splits)
  then obtain p where
    "logWithCallerInfo S c level fmt v w = Returned (w\<lparr>stdout := stdout w @ [p]\<rparr>)" by blast
  with False show ?thesis
    by (intro exI [of _ "[p]"]) simp
qed

lemma init_with_file_opens:
  assumes "InitLogger level True name w = (None, wi)" and "name \<noteq> []"
  shows "\<exists>h f. logFile wi = Some h \<and> files wi h = Some f \<and> f_name f = name \<and> \<not> f_closed f
           \<and> wired (MultiWriter [Stdout, FileWriter h]) wi"
proof -
  let ?w0 = "w\<lparr>currentLevel := level\<rparr>"
  let ?made = "if stat_not_exist (disk ?w0) (Dir name) then MkdirAll (Dir name) (disk ?w0)
               else (None, disk ?w0)"
  from assms obtain h wr where
    opn: "OpenFile name AppendCreate (?w0\<lparr>disk := snd ?made\<rparr>) = (Inr h, wr)"
    and wi: "wi = install (MultiWriter [Stdout, FileWriter h]) {Ldate, Ltime, Lshortfile}
                    (wr\<lparr>logFile := Some h\<rparr>)"
    by (auto simp: InitLogger_def Let_def split: option.splits prod.splits sum.splits if_splits)
  from OpenFile_success [OF opn] obtain i d where
    "wr = (?w0\<lparr>disk := snd ?made\<rparr>)
            \<lparr>disk := d,
             files := (files (?w0\<lparr>disk := snd ?made\<rparr>))
               (next_file (?w0\<lparr>disk := snd ?made\<rparr>) \<mapsto> \<lparr>f_name = name, f_inode = i, f_closed = False\<rparr>),
             next_file := Suc (next_file (?w0\<lparr>disk := snd ?made\<rparr>))\<rparr>"
    and "h = next_file (?w0\<lparr>disk := snd ?made\<rparr>)"
    by blast
  then show ?thesis
    by (intro exI [of _ h] exI [of _ "\<lparr>f_name = name, f_inode = i, f_closed = False\<rparr>"])
      (simp add: wi install_def wired_def)
qed

lemma rotate_reopens:
  assumes ok: "RotateLogFile Sprintf w = Returned (None, w')"
    and lf: "logFile w = Some h" and fo: "files w h = Some f"
  shows "\<exists>h' f'. logFile w' = Some h' \<and> files w' h' = Some f' \<and> f_name f' = f_name f
           \<and> \<not> f_closed f' \<and> wired (MultiWriter [Stdout, FileWriter h']) w'"
proof -
  let ?name = "f_name f" and ?arch = "rotated_path (f_name f) (now w)"
  let ?wi = "w\<lparr>files := (files w)(h \<mapsto> f\<lparr>f_closed := True\<rparr>)\<rparr>"
  have close: "snd (file_Close h w) = ?wi" by (rule file_Close_eq [OF fo])
  from ok lf fo obtain d h' wr w3 where
    opn: "OpenFile ?name CreateTrunc (?wi\<lparr>disk := d\<rparr>) = (Inr h', wr)"
    and rep: "repoint (MultiWriter [Stdout, FileWriter h']) (wr\<lparr>logFile := Some h'\<rparr>) = Returned w3"
    and inf: "Info Sprintf (Some (''logger.go'', 249))
                [StrArg ''Log file rotated to'', StrArg ?arch] w3 = Returned w'"
    by (auto simp: RotateLogFile_def close Let_def
        split: option.splits prod.splits sum.splits exec.splits)
  from OpenFile_success [OF opn] obtain i d2 where
    h': "h' = next_file w"
    and wr: "wr = ?wi\<lparr>disk := d2,
                  files := (files ?wi)(next_file w \<mapsto> \<lparr>f_name = ?name, f_inode = i, f_closed = False\<rparr>),
                  next_file := Suc (next_file w)\<rparr>"
    by auto
  from repoint_success [OF rep] obtain ld li lw le lf' where
    w3: "w3 = (wr\<lparr>logFile := Some h'\<rparr>)
           \<lparr>debugLogger := Some (ld\<lparr>l_out := MultiWriter [Stdout, FileWriter h']\<rparr>),
            infoLogger := Some (li\<lparr>l_out := MultiWriter [Stdout, FileWriter h']\<rparr>),
            warningLogger := Some (lw\<lparr>l_out := MultiWriter [Stdout, FileWriter h']\<rparr>),
            errorLogger := Some (le\<lparr>l_out := MultiWriter [Stdout, FileWriter h']\<rparr>),
            fatalLogger := Some (lf'\<lparr>l_out := MultiWriter [Stdout, FileWriter h']\<rparr>),
            std := (std (wr\<lparr>logFile := Some h'\<rparr>))\<lparr>l_out := MultiWriter [Stdout, FileWriter h']\<rparr>\<rparr>"
    by blast
  let ?f' = "\<lparr>f_name = ?name, f_inode = i, f_closed = False\<rparr>"
  have wired3: "wired (MultiWriter [Stdout, FileWriter h']) w3" by (simp add: w3 wired_def)
  have files3: "files w3 h' = Some ?f'" by (simp add: w3 wr h')
  from wired_getLogger [OF wired3, of LevelInfo] obtain l where
    l: "getLogger LevelInfo w3 = Some l" "l_out l = MultiWriter [Stdout, FileWriter h']" by blast
  from log_to_open_file [OF l files3, of Sprintf "Some (''logger.go'', 249)" "[]"
      "[StrArg ''Log file rotated to'', StrArg ?arch]"] inf
  obtain ls where
    w': "w' = w3\<lparr>stdout := stdout w3 @ ls,
                 disk := foldl (\<lambda>d p. append_data (f_inode ?f') p d) (disk w3) ls\<rparr>"
    by (auto simp: Info_def)
  show ?thesis
    using wired3 files3
    by (intro exI [of _ h'] exI [of _ ?f']) (simp add: w', simp add: w3)
qed

lemma closed_world_eq:
  "closed_world = file_world\<lparr>files := (files file_world)
       (0 \<mapsto> \<lparr>f_name = ''logs/demo.log'', f_inode = 0, f_closed = True\<rparr>)\<rparr>"
  by (simp add: closed_world_def CloseLogger_def file_Close_def file_world_eq install_def start_def)

lemma rotate_used_file_world:
  "RotateLogFile no_verbs used_file_world = Returned (None, rotated_world)"
proof -
  have "map_option fst (returned (RotateLogFile no_verbs used_file_world)) = Some None"
    by code_simp
  then show ?thesis
    unfolding rotated_world_def
    by (cases "RotateLogFile no_verbs used_file_world") (auto simp: returned_def)
qed

lemma rotate_closed_world:
  "RotateLogFile no_verbs closed_world = Returned (None, reopened_world)"
proof -
  have "map_option fst (returned (RotateLogFile no_verbs closed_world)) = Some None"
    by code_simp
  then show ?thesis
    unfolding reopened_world_def
    by (cases "RotateLogFile no_verbs closed_world") (auto simp: returned_def)
qed

text \<open>
  Claim C7, in the form that holds of the code. A successful \<open>InitLogger\<close> with
  \<open>logToFile\<close> and a name leaves \<open>logFile\<close> on an open file object of that name, with the
  five loggers on console and file. A successful \<open>RotateLogFile\<close> from a state with a
  handle leaves \<open>logFile\<close> on a new open file object of the same name, the loggers on
  console and that file. \<open>CloseLogger\<close> marks the file object closed and changes nothing
  else: \<open>logFile\<close> still points to it. While the loggers write to the console and a closed
  file, a leveled call at or above the current level changes the console output only,
  and one below it changes nothing. With \<open>logFile\<close> nil, \<open>RotateLogFile\<close> returns success
  and changes nothing.
\<close>

theorem handle_lifecycle:
  "(InitLogger level True name w = (None, wi) \<and> name \<noteq> [] \<longrightarrow>
      (\<exists>h f. logFile wi = Some h \<and> files wi h = Some f \<and> f_name f = name \<and> \<not> f_closed f
         \<and> wired (MultiWriter [Stdout, FileWriter h]) wi))
   \<and> (RotateLogFile S w = Returned (None, wr) \<and> logFile w = Some h \<and> files w h = Some f \<longrightarrow>
      (\<exists>h' f'. logFile wr = Some h' \<and> files wr h' = Some f' \<and> f_name f' = f_name f
         \<and> \<not> f_closed f' \<and> wired (MultiWriter [Stdout, FileWriter h']) wr))
   \<and> (logFile w = Some h \<and> files w h = Some f \<longrightarrow>
      CloseLogger w = w\<lparr>files := (files w)(h \<mapsto> f\<lparr>f_closed := True\<rparr>)\<rparr>)
   \<and> (wired (MultiWriter [Stdout, FileWriter h]) w \<and> files w h = Some f \<and> f_closed f \<longrightarrow>
      (\<exists>ls. (ls = [] \<longleftrightarrow> lvl < currentLevel w)
         \<and> logWithCallerInfo S c lvl fmt v w = Returned (w\<lparr>stdout := stdout w @ ls\<rparr>)))
   \<and> (logFile w = None \<longrightarrow> RotateLogFile S w = Returned (None, w))"
proof (intro conjI impI)
  assume "InitLogger level True name w = (None, wi) \<and> name \<noteq> []"
  then show "\<exists>h f. logFile wi = Some h \<and> files wi h = Some f \<and> f_name f = name \<and> \<not> f_closed f
         \<and> wired (MultiWriter [Stdout, FileWriter h]) wi"
    using init_with_file_opens by blast
next
  assume "RotateLogFile S w = Returned (None, wr) \<and> logFile w = Some h \<and> files w h = Some f"
  then show "\<exists>h' f'. logFile wr = Some h' \<and> files wr h' = Some f' \<and> f_name f' = f_name f
         \<and> \<not> f_closed f' \<and> wired (MultiWriter [Stdout, FileWriter h']) wr"
    using rotate_reopens by blast
next
  assume "logFile w = Some h \<and> files w h = Some f"
  then show "CloseLogger w = w\<lparr>files := (files w)(h \<mapsto> f\<lparr>f_closed := True\<rparr>)\<rparr>"
    by (simp add: CloseLogger_def file_Close_eq)
next
  assume "wired (MultiWriter [Stdout, FileWriter h]) w \<and> files w h = Some f \<and> f_closed f"
  then show "\<exists>ls. (ls = [] \<longleftrightarrow> lvl < currentLevel w)
         \<and> logWithCallerInfo S c lvl fmt v w = Returned (w\<lparr>stdout := stdout w @ ls\<rparr>)"
    using log_to_closed_file [of h w f lvl S c fmt v] by blast
next
  assume "logFile w = None"
  then show "RotateLogFile S w = Returned (None, w)" by (simp add: RotateLogFile_def)
qed

theorem handle_lifecycle_witness:
  "InitLogger LevelDebug True ''logs/demo.log'' (start demo_disk demo_clock) = (None, file_world)
   \<and> logFile file_world = Some 0
   \<and> files file_world 0 = Some \<lparr>f_name = ''logs/demo.log'', f_inode = 0, f_closed = False\<rparr>
   \<and> wired (MultiWriter [Stdout, FileWriter 0]) file_world
   \<and> CloseLogger file_world = closed_world
   \<and> files closed_world 0 = Some \<lparr>f_name = ''logs/demo.log'', f_inode = 0, f_closed = True\<rparr>
   \<and> (\<exists>ls. ls \<noteq> []
         \<and> logWithCallerInfo no_verbs (Some (''/app/demo.go'', 19)) LevelDebug [] [StrArg ''x'']
             closed_world
           = Returned (closed_world\<lparr>stdout := stdout closed_world @ ls\<rparr>))
   \<and> RotateLogFile no_verbs used_file_world = Returned (None, rotated_world)
   \<and> (\<exists>h' f'. logFile rotated_world = Some h' \<and> files rotated_world h' = Some f'
         \<and> f_name f' = ''logs/demo.log'' \<and> \<not> f_closed f')
   \<and> logFile console_world = None
   \<and> RotateLogFile no_verbs console_world = Returned (None, console_world)"
proof -
  let ?open = "\<lparr>f_name = ''logs/demo.log'', f_inode = 0, f_closed = False\<rparr>"
  let ?shut = "\<lparr>f_name = ''logs/demo.log'', f_inode = 0, f_closed = True\<rparr>"
  have "fst (InitLogger LevelDebug True ''logs/demo.log'' (start demo_disk demo_clock)) = None"
    by code_simp
  then have i: "InitLogger LevelDebug True ''logs/demo.log'' (start demo_disk demo_clock)
                  = (None, file_world)"
    unfolding file_world_def by (metis prod.collapse)
  from handle_lifecycle [where level = LevelDebug and name = "''logs/demo.log''"
      and w = "start demo_disk demo_clock" and wi = file_world, THEN conjunct1] i
  have a: "wired (MultiWriter [Stdout, FileWriter 0]) file_world"
    "logFile file_world = Some 0" "files file_world 0 = Some ?open"
    by (auto simp: file_world_eq install_def start_def)
  from handle_lifecycle [where w = file_world and h = 0 and f = ?open,
      THEN conjunct2, THEN conjunct2, THEN conjunct1] a
  have c: "CloseLogger file_world = closed_world"
    by (simp add: closed_world_eq)
  have cw: "wired (MultiWriter [Stdout, FileWriter 0]) closed_world"
    "files closed_world 0 = Some ?shut" "currentLevel closed_world = LevelDebug"
    using a(1) by (simp_all add: closed_world_eq wired_def file_world_eq install_def start_def)
  from handle_lifecycle [where w = closed_world and h = 0 and f = ?shut and lvl = LevelDebug
      and S = no_verbs and c = "Some (''/app/demo.go'', 19)" and fmt = "[]"
      and v = "[StrArg ''x'']", THEN conjunct2, THEN conjunct2, THEN conjunct2, THEN conjunct1] cw
  have d: "\<exists>ls. ls \<noteq> []
         \<and> logWithCallerInfo no_verbs (Some (''/app/demo.go'', 19)) LevelDebug [] [StrArg ''x'']
             closed_world
           = Returned (closed_world\<lparr>stdout := stdout closed_world @ ls\<rparr>)"
    by auto
  have u: "logFile used_file_world = Some 0" "files used_file_world 0 = Some ?open"
    by code_simp+
  from handle_lifecycle [where w = used_file_world and h = 0 and f = ?open and S = no_verbs
      and wr = rotated_world, THEN conjunct2, THEN conjunct1] rotate_used_file_world u
  have b: "\<exists>h' f'. logFile rotated_world = Some h' \<and> files rotated_world h' = Some f'
         \<and> f_name f' = ''logs/demo.log'' \<and> \<not> f_closed f'"
    by auto
  have n: "logFile console_world = None"
    by (simp add: console_world_eq install_def start_def)
  from handle_lifecycle [where w = console_world and S = no_verbs,
      THEN conjunct2, THEN conjunct2, THEN conjunct2, THEN conjunct2] n
  have e: "RotateLogFile no_verbs console_world = Returned (None, console_world)"
    by blast
  from i a c cw(2) d rotate_used_file_world b n e show ?thesis by blast
qed

text \<open>
  \<open>RotateLogFile\<close> after \<open>CloseLogger\<close>: the handle is closed but not nil, so the file is
  renamed, a new one is created and written to.
\<close>

theorem rotate_after_close_counterexample:
  "logFile closed_world = Some 0
   \<and> files closed_world 0 = Some \<lparr>f_name = ''logs/demo.log'', f_inode = 0, f_closed = True\<rparr>
   \<and> RotateLogFile no_verbs closed_world = Returned (None, reopened_world)
   \<and> fs_files (disk closed_world) ''logs/demo-20230308-153045.log'' = None
   \<and> fs_files (disk reopened_world) ''logs/demo-20230308-153045.log'' = Some 0
   \<and> disk reopened_world \<noteq> disk closed_world
   \<and> file_data closed_world ''logs/demo.log'' = Some []
   \<and> file_data reopened_world ''logs/demo.log''
       = Some [''[INFO] 2023/03/08 15:30:45 logger.go:141: logger.go:249: Log file rotated tologs/demo-20230308-153045.log'' @ [newline]]"
proof -
  have a: "logFile closed_world = Some 0"
    "files closed_world 0 = Some \<lparr>f_name = ''logs/demo.log'', f_inode = 0, f_closed = True\<rparr>"
    by (simp_all add: closed_world_eq file_world_eq install_def start_def)
  have b: "fs_files (disk closed_world) ''logs/demo-20230308-153045.log'' = None"
    "fs_files (disk reopened_world) ''logs/demo-20230308-153045.log'' = Some 0"
    by code_simp+
  then have c: "disk reopened_world \<noteq> disk closed_world" by auto
  have d: "file_data closed_world ''logs/demo.log'' = Some []"
    "file_data reopened_world ''logs/demo.log''
       = Some [''[INFO] 2023/03/08 15:30:45 logger.go:141: logger.go:249: Log file rotated tologs/demo-20230308-153045.log'' @ [newline]]"
    by code_simp+
  from a rotate_closed_world b c d show ?thesis by blast
qed

section \<open>A failed initialisation\<close>

lemma sys_open_failure_keeps: "sys_open p mode d = (Inl e, d') \<Longrightarrow> d' = d"
  by (auto simp: sys_open_def split: if_splits option.splits)

lemma OpenFile_failure: "OpenFile p mode w = (Inl e, w') \<Longrightarrow> w' = w"
  by (auto simp: OpenFile_def split: prod.splits sum.splits dest: sys_open_failure_keeps)

lemma only_dirs_differ:
  assumes "fs_files d' = fs_files (d :: filesystem)" and "fs_data d' = fs_data d"
    and "fs_denied d' = fs_denied d" and "fs_fresh d' = fs_fresh d"
  shows "d' = d\<lparr>fs_dirs := fs_dirs d'\<rparr>"
  using assms by (cases d, cases d') simp

text \<open>
  Claim C2, in the form that holds of the code. \<open>InitLogger\<close> returns an error only with
  \<open>logToFile\<close> and a non-empty name, from creating the directory or from opening the
  file. The state after the call is the state before it but for three things: the
  current level, which is the requested one; the set of directories, which may have
  grown by the parents made before the failure; and \<open>logFile\<close>, which is unchanged when
  the directory could not be created and nil when the file could not be opened. So the
  five loggers, the default logger, what was written to the standard streams, the file
  objects, the directory entries of regular files and the data of all files are as
  before the call.
\<close>

theorem failed_init_state:
  assumes "InitLogger level logToFile logFileName w = (Some e, w')"
  shows "logToFile \<and> logFileName \<noteq> []
       \<and> w' = w\<lparr>currentLevel := level, logFile := logFile w',
                 disk := (disk w)\<lparr>fs_dirs := fs_dirs (disk w')\<rparr>\<rparr>
       \<and> fs_dirs (disk w) \<subseteq> fs_dirs (disk w')
       \<and> currentLevel w' = level
       \<and> debugLogger w' = debugLogger w \<and> infoLogger w' = infoLogger w
       \<and> warningLogger w' = warningLogger w \<and> errorLogger w' = errorLogger w
       \<and> fatalLogger w' = fatalLogger w \<and> std w' = std w
       \<and> stdout w' = stdout w \<and> stderr w' = stderr w \<and> files w' = files w
       \<and> fs_files (disk w') = fs_files (disk w) \<and> fs_data (disk w') = fs_data (disk w)
       \<and> ((\<exists>c. e = CreateLogsDirFailed c \<and> logFile w' = logFile w)
          \<or> (\<exists>c. e = OpenLogFileFailed c \<and> logFile w' = None))"
proof -
  let ?w1 = "w\<lparr>currentLevel := level\<rparr>"
  let ?made = "if stat_not_exist (disk ?w1) (Dir logFileName)
               then MkdirAll (Dir logFileName) (disk ?w1) else (None, disk ?w1)"
  from assms have on: "logToFile \<and> logFileName \<noteq> []"
    by (auto simp: InitLogger_def Let_def split: if_splits)
  have frame: "fs_files (snd ?made) = fs_files (disk w) \<and> fs_data (snd ?made) = fs_data (disk w)
      \<and> fs_denied (snd ?made) = fs_denied (disk w) \<and> fs_fresh (snd ?made) = fs_fresh (disk w)
      \<and> fs_dirs (disk w) \<subseteq> fs_dirs (snd ?made)"
    using MkdirAll_frame [of "Dir logFileName" "disk w"] by simp
  then have made: "snd ?made = (disk w)\<lparr>fs_dirs := fs_dirs (snd ?made)\<rparr>"
    by (intro only_dirs_differ) simp_all
  have "(\<exists>c. e = CreateLogsDirFailed c \<and> w' = ?w1\<lparr>disk := snd ?made\<rparr>)
      \<or> (\<exists>c. e = OpenLogFileFailed c \<and> w' = ?w1\<lparr>disk := snd ?made, logFile := None\<rparr>)"
    using assms on
    by (auto simp: InitLogger_def Let_def split: option.splits prod.splits sum.splits
        dest!: OpenFile_failure)
  then show ?thesis
  proof
    assume "\<exists>c. e = CreateLogsDirFailed c \<and> w' = ?w1\<lparr>disk := snd ?made\<rparr>"
    then obtain c where c: "e = CreateLogsDirFailed c" and w': "w' = ?w1\<lparr>disk := snd ?made\<rparr>"
      by blast
    have d: "disk w' = snd ?made" "logFile w' = logFile w" by (simp_all add: w')
    have "w' = w\<lparr>currentLevel := level, logFile := logFile w',
                 disk := (disk w)\<lparr>fs_dirs := fs_dirs (disk w')\<rparr>\<rparr>"
      unfolding d using made by (simp add: w')
    with on c d frame show ?thesis by (simp add: w')
  next
    assume "\<exists>c. e = OpenLogFileFailed c \<and> w' = ?w1\<lparr>disk := snd ?made, logFile := None\<rparr>"
    then obtain c where c: "e = OpenLogFileFailed c"
      and w': "w' = ?w1\<lparr>disk := snd ?made, logFile := None\<rparr>"
      by blast
    have d: "disk w' = snd ?made" "logFile w' = None" by (simp_all add: w')
    have "w' = w\<lparr>currentLevel := level, logFile := logFile w',
                 disk := (disk w)\<lparr>fs_dirs := fs_dirs (disk w')\<rparr>\<rparr>"
      unfolding d using made by (simp add: w')
    with on c d frame show ?thesis by (simp add: w')
  qed
qed


theorem failed_init_state_witness:
  "InitLogger LevelInfo True ''a/b/c.log'' (start nested_disk demo_clock)
     = (Some (CreateLogsDirFailed EACCES), snd partial_init)
   \<and> fs_dirs (disk (start nested_disk demo_clock)) = {''.''}
   \<and> fs_dirs (disk (snd partial_init)) = {''.'', ''a''}
   \<and> logFile (snd partial_init) = None
   \<and> snd partial_init
       = (start nested_disk demo_clock)
           \<lparr>currentLevel := LevelInfo, logFile := None,
            disk := nested_disk\<lparr>fs_dirs := {''.'', ''a''}\<rparr>\<rparr>"
proof -
  have "fst partial_init = Some (CreateLogsDirFailed EACCES)" by code_simp
  then have h: "InitLogger LevelInfo True ''a/b/c.log'' (start nested_disk demo_clock)
     = (Some (CreateLogsDirFailed EACCES), snd partial_init)"
    unfolding partial_init_def by (metis prod.collapse)
  have before: "fs_dirs (disk (start nested_disk demo_clock)) = {''.''}"
    "disk (start nested_disk demo_clock) = nested_disk"
    by (simp_all add: start_def nested_disk_def demo_disk_def)
  have dirs: "fs_dirs (disk (snd partial_init)) = {''.'', ''a''}" by code_simp
  have lf: "logFile (snd partial_init) = None" by code_simp
  from failed_init_state [OF h]
  have "snd partial_init
       = (start nested_disk demo_clock)
           \<lparr>currentLevel := LevelInfo, logFile := logFile (snd partial_init),
            disk := (disk (start nested_disk demo_clock))
                      \<lparr>fs_dirs := fs_dirs (disk (snd partial_init))\<rparr>\<rparr>"
    by blast
  then have "snd partial_init
       = (start nested_disk demo_clock)
           \<lparr>currentLevel := LevelInfo, logFile := None,
            disk := nested_disk\<lparr>fs_dirs := {''.'', ''a''}\<rparr>\<rparr>"
    unfolding dirs lf before(2) .
  with h before(1) dirs lf show ?thesis by blast
qed

text \<open>
  At process start with \<open>logs\<close> refused: the call fails, the level is \<open>LevelDebug\<close> and no
  longer \<open>LevelInfo\<close>, and the loggers are still nil, so \<open>Debug\<close> panics. From a logger
  on \<open>logs/demo.log\<close>, with \<open>logs/other.log\<close> refused: the call fails, \<open>logFile\<close> is nil,
  and the loggers still write to the first file, so \<open>Error\<close> adds a line to it.
\<close>

lemma reinit_error:
  "Error no_verbs (Some (''/app/demo.go'', 22)) [StrArg ''e''] (snd reinit_failed)
     = Returned reinit_logged"
proof -
  have "currentLevel (snd reinit_failed) = LevelError"
    "map_option l_out (errorLogger (snd reinit_failed)) = Some (MultiWriter [Stdout, FileWriter 0])"
    by code_simp+
  then show ?thesis
    unfolding reinit_logged_def
    by (auto simp: Error_def logWithCallerInfo_def getLogger_def LevelDebug_def LevelInfo_def
        LevelWarning_def LevelError_def)
qed

theorem failed_init_counterexample:
  "fst failed_init = Some (CreateLogsDirFailed EACCES)
   \<and> currentLevel (start locked_disk demo_clock) = LevelInfo
   \<and> currentLevel (snd failed_init) = LevelDebug
   \<and> currentLevel (snd failed_init) \<noteq> currentLevel (start locked_disk demo_clock)
   \<and> Debug no_verbs (Some (''/app/demo.go'', 19)) [StrArg ''x''] (snd failed_init) = Panicked
   \<and> fst reinit_failed = Some (OpenLogFileFailed EACCES)
   \<and> logFile refused_file_world = Some 0
   \<and> logFile (snd reinit_failed) = None
   \<and> map_option l_out (errorLogger (snd reinit_failed))
       = Some (MultiWriter [Stdout, FileWriter 0])
   \<and> file_data (snd reinit_failed) ''logs/demo.log'' = Some []
   \<and> Error no_verbs (Some (''/app/demo.go'', 22)) [StrArg ''e''] (snd reinit_failed)
       = Returned reinit_logged
   \<and> file_data reinit_logged ''logs/demo.log''
       = Some [''[ERROR] 2023/03/08 15:30:45 logger.go:141: demo.go:22: e'' @ [newline]]"
proof -
  have a: "fst failed_init = Some (CreateLogsDirFailed EACCES)
   \<and> currentLevel (start locked_disk demo_clock) = LevelInfo
   \<and> currentLevel (snd failed_init) = LevelDebug
   \<and> currentLevel (snd failed_init) \<noteq> currentLevel (start locked_disk demo_clock)
   \<and> Debug no_verbs (Some (''/app/demo.go'', 19)) [StrArg ''x''] (snd failed_init) = Panicked"
    by (simp add: failed_init_eq start_def Debug_def logWithCallerInfo_def getLogger_def
        LevelDebug_def LevelInfo_def)
  have b: "fst reinit_failed = Some (OpenLogFileFailed EACCES)"
    "logFile refused_file_world = Some 0"
    "logFile (snd reinit_failed) = None"
    "map_option l_out (errorLogger (snd reinit_failed))
       = Some (MultiWriter [Stdout, FileWriter 0])"
    "file_data (snd reinit_failed) ''logs/demo.log'' = Some []"
    "file_data reinit_logged ''logs/demo.log''
       = Some [''[ERROR] 2023/03/08 15:30:45 logger.go:141: demo.go:22: e'' @ [newline]]"
    by code_simp+
  from a b reinit_error show ?thesis by blast
qed

section \<open>The emitted line\<close>

text \<open>
  Claim C3. \<open>Debug("x")\<close> on line 19 of \<open>demo.go\<close>, after
  \<open>InitLogger(LevelDebug, true, "logs/demo.log")\<close>, writes the same line to the console and
  to the file, and the line names two places: \<open>logger.go:141\<close>, which the logger's own
  \<open>Lshortfile\<close> adds for the call to \<open>Printf\<close> inside \<open>logWithCallerInfo\<close>, and then
  \<open>demo.go:19\<close>. The documented line has the call site alone.
\<close>

theorem emitted_line_names_two_places:
  "Debug no_verbs (Some (''/app/demo.go'', 19)) [StrArg ''x''] file_world = Returned used_file_world
   \<and> stdout used_file_world
       = [''[DEBUG] 2023/03/08 15:30:45 logger.go:141: demo.go:19: x'' @ [newline]]
   \<and> file_data used_file_world ''logs/demo.log''
       = Some [''[DEBUG] 2023/03/08 15:30:45 logger.go:141: demo.go:19: x'' @ [newline]]
   \<and> documented_line ''[DEBUG] '' demo_clock ''/app/demo.go'' 19 ''x''
       = ''[DEBUG] 2023/03/08 15:30:45 demo.go:19: x'' @ [newline]
   \<and> stdout used_file_world \<noteq> [documented_line ''[DEBUG] '' demo_clock ''/app/demo.go'' 19 ''x'']"
proof -
  have r: "Debug no_verbs (Some (''/app/demo.go'', 19)) [StrArg ''x''] file_world
             = Returned used_file_world"
    unfolding used_file_world_def
    by (simp add: Debug_def logWithCallerInfo_def file_world_eq install_def start_def
        getLogger_def LevelDebug_def)
  have s: "stdout used_file_world
       = [''[DEBUG] 2023/03/08 15:30:45 logger.go:141: demo.go:19: x'' @ [newline]]"
    "file_data used_file_world ''logs/demo.log''
       = Some [''[DEBUG] 2023/03/08 15:30:45 logger.go:141: demo.go:19: x'' @ [newline]]"
    "documented_line ''[DEBUG] '' demo_clock ''/app/demo.go'' 19 ''x''
       = ''[DEBUG] 2023/03/08 15:30:45 demo.go:19: x'' @ [newline]"
    by code_simp+
  have "stdout used_file_world \<noteq> [documented_line ''[DEBUG] '' demo_clock ''/app/demo.go'' 19 ''x'']"
    unfolding s by simp
  with r s show ?thesis by blast
qed

section \<open>Formatted and unformatted variants\<close>

lemma logWithCallerInfo_empty_format:
  "logWithCallerInfo F caller level [] v w = logWithCallerInfo G caller level [] v w"
  by (simp add: logWithCallerInfo_def split: option.splits prod.splits)

text \<open>
  Claim C10. At each of the five severities the formatted operation with the empty
  template gives the result of the unformatted operation on the same operands, state and
  call site: the formatter is not consulted (the two sides may even be given different
  ones). With the empty template the message is \<open>Sprint\<close> of the operands, behind the
  call site when there is one: nothing is substituted.
\<close>

theorem empty_template_is_unformatted:
  "Debugf F caller [] v w = Debug G caller v w
   \<and> Infof F caller [] v w = Info G caller v w
   \<and> Warningf F caller [] v w = Warning G caller v w
   \<and> Errorf F caller [] v w = Error G caller v w
   \<and> Fatalf F caller [] v w = Fatal G caller v w
   \<and> logWithCallerInfo F caller level [] v w
       = (if level < currentLevel w then Returned w
          else case getLogger level w of
              None \<Rightarrow> Panicked
            | Some l \<Rightarrow>
                Returned (logger_output l ''logger.go'' (if caller = None then 148 else 141)
                  (case caller of
                     None \<Rightarrow> Sprint v
                   | Some (file, line) \<Rightarrow> located (Base file) line (Sprint v)) w))"
proof -
  have "logWithCallerInfo F caller level [] v w
       = (if level < currentLevel w then Returned w
          else case getLogger level w of
              None \<Rightarrow> Panicked
            | Some l \<Rightarrow>
                Returned (logger_output l ''logger.go'' (if caller = None then 148 else 141)
                  (case caller of
                     None \<Rightarrow> Sprint v
                   | Some (file, line) \<Rightarrow> located (Base file) line (Sprint v)) w))"
    by (simp add: logWithCallerInfo_def split: option.splits prod.splits)
  then show ?thesis
    unfolding Debugf_def Debug_def Infof_def Info_def Warningf_def Warning_def
      Errorf_def Error_def Fatalf_def Fatal_def
    using logWithCallerInfo_empty_format [of F caller _ v w G] by simp
qed

text \<open>
  Claim C4. The unformatted operations build their message with \<open>fmt.Sprint\<close>, which puts
  a space between two operands only when neither is a string. The message of line 249,
  \<open>Info("Log file rotated to", newPath)\<close>, therefore runs its two strings together, where
  the documented rule has one space between them; on operands that are not strings the
  two rules agree.
\<close>

theorem unformatted_strings_run_together:
  "Sprint [StrArg ''Log file rotated to'', StrArg ''logs/demo-20230308-153045.log'']
     = ''Log file rotated tologs/demo-20230308-153045.log''
   \<and> space_joined [StrArg ''Log file rotated to'', StrArg ''logs/demo-20230308-153045.log'']
       = ''Log file rotated to logs/demo-20230308-153045.log''
   \<and> Sprint [StrArg ''a'', StrArg ''b''] = ''ab''
   \<and> space_joined [StrArg ''a'', StrArg ''b''] = ''a b''
   \<and> Sprint [IntArg 1, IntArg 2] = space_joined [IntArg 1, IntArg 2]
   \<and> RotateLogFile no_verbs used_file_world = Returned (None, rotated_world)
   \<and> stdout rotated_world
       = [''[DEBUG] 2023/03/08 15:30:45 logger.go:141: demo.go:19: x'' @ [newline],
          ''[INFO] 2023/03/08 15:30:45 logger.go:141: logger.go:249: Log file rotated tologs/demo-20230308-153045.log'' @ [newline]]"
proof -
  have "Sprint [StrArg ''Log file rotated to'', StrArg ''logs/demo-20230308-153045.log'']
     = ''Log file rotated tologs/demo-20230308-153045.log''"
    "space_joined [StrArg ''Log file rotated to'', StrArg ''logs/demo-20230308-153045.log'']
       = ''Log file rotated to logs/demo-20230308-153045.log''"
    "Sprint [StrArg ''a'', StrArg ''b''] = ''ab''"
    "space_joined [StrArg ''a'', StrArg ''b''] = ''a b''"
    "Sprint [IntArg 1, IntArg 2] = space_joined [IntArg 1, IntArg 2]"
    "stdout rotated_world
       = [''[DEBUG] 2023/03/08 15:30:45 logger.go:141: demo.go:19: x'' @ [newline],
          ''[INFO] 2023/03/08 15:30:45 logger.go:141: logger.go:249: Log file rotated tologs/demo-20230308-153045.log'' @ [newline]]"
    by code_simp+
  with rotate_used_file_world show ?thesis by blast
qed

end
